theory Spec2Isabelle
  imports Complex_Main "HOL-Library.Word"
begin

section \<open>JavaScript strings and the built-ins the worker calls\<close>

text \<open>
  A JavaScript string is its sequence of UTF-16 code units, so \<open>length\<close> is the
  \<^verbatim>\<open>.length\<close> of the source. The literals of \<^verbatim>\<open>src/index.ts\<close> are ASCII except for
  a dash, an arrow and a bullet, which are written as their code units.
\<close>

type_synonym jsstring = "16 word list"

definition js :: "string \<Rightarrow> jsstring" where
  "js s = map (\<lambda>c. of_nat (of_char c)) s"

text \<open>
  \<^verbatim>\<open>String.prototype.toLowerCase\<close>: the letters A to Z are mapped to a to z. Code units
  outside ASCII are left as they are. The catalog texts are ASCII, and what is proved
  about the fallback reads the lower-cased description only through \<open>includes_str\<close>
  and holds for every string in its place.
\<close>

definition lowerUnit :: "16 word \<Rightarrow> 16 word" where
  "lowerUnit u = (if 0x41 \<le> u \<and> u \<le> 0x5A then u + 0x20 else u)"

definition toLowerCase :: "jsstring \<Rightarrow> jsstring" where
  "toLowerCase s = map lowerUnit s"

text \<open>\<^verbatim>\<open>s.includes(n)\<close>: \<open>n\<close> occurs in \<open>s\<close> at some position.\<close>

fun startsWith :: "'a list \<Rightarrow> 'a list \<Rightarrow> bool" where
  "startsWith s [] = True"
| "startsWith [] (y # ys) = False"
| "startsWith (x # xs) (y # ys) = (x = y \<and> startsWith xs ys)"

fun includes_str :: "'a list \<Rightarrow> 'a list \<Rightarrow> bool" where
  "includes_str [] n = startsWith [] n"
| "includes_str (x # xs) n = (startsWith (x # xs) n \<or> includes_str xs n)"

text \<open>
  \<^verbatim>\<open>String.prototype.trim\<close> removes the WhiteSpace and LineTerminator code points of
  ECMAScript from both ends; all of them are single code units.
\<close>

definition isWhiteSpace :: "16 word \<Rightarrow> bool" where
  "isWhiteSpace u =
     (u \<in> {0x09, 0x0A, 0x0B, 0x0C, 0x0D, 0x20, 0xA0, 0x1680, 0x2028, 0x2029,
            0x202F, 0x205F, 0x3000, 0xFEFF}
      \<or> (0x2000 \<le> u \<and> u \<le> 0x200A))"

definition trim :: "jsstring \<Rightarrow> jsstring" where
  "trim s = rev (dropWhile isWhiteSpace (rev (dropWhile isWhiteSpace s)))"

text \<open>A non-negative integer in a template literal: its decimal digits.\<close>

fun showNat :: "nat \<Rightarrow> jsstring" where
  "showNat n =
     (if n < 10 then [of_nat (48 + n)] else showNat (n div 10) @ [of_nat (48 + n mod 10)])"

text \<open>A thrown value, kept as the string \<^verbatim>\<open>String(err?.message ?? err)\<close> gives for it.\<close>

datatype jserror = Thrown jsstring

fun message_of :: "jserror \<Rightarrow> jsstring" where
  "message_of (Thrown m) = m"

text \<open>
  \<^verbatim>\<open>atob\<close> is the forgiving-base64 decoder of the platform: ASCII whitespace is
  dropped, up to two padding signs are removed when the length is a multiple of four, and
  a length of 1 modulo 4 or a character outside the alphabet raises
  \<^verbatim>\<open>InvalidCharacterError\<close>. The result has one code unit per decoded byte.
\<close>

definition isAsciiWhitespace :: "16 word \<Rightarrow> bool" where
  "isAsciiWhitespace u = (u \<in> {0x09, 0x0A, 0x0C, 0x0D, 0x20})"

definition b64val :: "16 word \<Rightarrow> nat option" where
  "b64val u =
     (if 0x41 \<le> u \<and> u \<le> 0x5A then Some (unat u - 0x41)
      else if 0x61 \<le> u \<and> u \<le> 0x7A then Some (unat u - 0x61 + 26)
      else if 0x30 \<le> u \<and> u \<le> 0x39 then Some (unat u - 0x30 + 52)
      else if u = 0x2B then Some 62
      else if u = 0x2F then Some 63
      else None)"

definition stripPadding :: "jsstring \<Rightarrow> jsstring" where
  "stripPadding s =
     (if length s mod 4 = 0 then
        (case rev s of
           a # b # r \<Rightarrow>
             (if a = 0x3D \<and> b = 0x3D then rev r
              else if a = 0x3D then rev (b # r)
              else s)
         | _ \<Rightarrow> s)
      else s)"

fun b64bytes :: "nat list \<Rightarrow> jsstring" where
  "b64bytes (a # b # c # d # r) =
     of_nat (a * 4 + b div 16) # of_nat ((b mod 16) * 16 + c div 4)
       # of_nat ((c mod 4) * 64 + d) # b64bytes r"
| "b64bytes [a, b, c] = [of_nat (a * 4 + b div 16), of_nat ((b mod 16) * 16 + c div 4)]"
| "b64bytes [a, b] = [of_nat (a * 4 + b div 16)]"
| "b64bytes r = []"

definition atob :: "jsstring \<Rightarrow> jserror + jsstring" where
  "atob s =
     (let d = stripPadding (filter (\<lambda>u. \<not> isAsciiWhitespace u) s) in
      if length d mod 4 = 1 \<or> list_ex (\<lambda>u. b64val u = None) d
      then Inl (Thrown (js ''InvalidCharacterError''))
      else Inr (b64bytes (map (\<lambda>u. case b64val u of Some v \<Rightarrow> v | None \<Rightarrow> 0) d)))"

section \<open>JSON values and their conversion to strings\<close>

text \<open>
  A value read from a parsed JSON body. The handlers read a field as
  \<^verbatim>\<open>(body.x ?? "").toString()\<close> or \<^verbatim>\<open>(body.x || "").toString()\<close>, whatever the value is.
  \<open>stringOf\<close> is that conversion: a string is itself, a number is printed by the
  platform, an array joins the conversions of its elements with commas, and an object is
  \<^verbatim>\<open>[object Object]\<close> unless it has a key \<^verbatim>\<open>toString\<close> of its own, which no JSON value
  can make callable, so that the conversion raises a TypeError. \<^verbatim>\<open>null\<close> gives the empty
  string both behind \<^verbatim>\<open>??\<close> and as an element of an array. The text of the TypeError is
  the engine's.
\<close>

datatype json =
    JNull
  | JBool bool
  | JNum real
  | JStr jsstring
  | JArr "json list"
  | JObj "(jsstring \<times> json) list"

fun joinStrings :: "jsstring list \<Rightarrow> jsstring" where
  "joinStrings [] = []"
| "joinStrings [s] = s"
| "joinStrings (s # r # rest) = s @ [0x2C] @ joinStrings (r # rest)"

fun joinResults :: "(jserror + jsstring) list \<Rightarrow> jsstring list \<Rightarrow> jserror + jsstring" where
  "joinResults [] acc = Inr (joinStrings (rev acc))"
| "joinResults (Inl e # rest) acc = Inl e"
| "joinResults (Inr s # rest) acc = joinResults rest (s # acc)"

fun stringOf :: "(real \<Rightarrow> jsstring) \<Rightarrow> json \<Rightarrow> jserror + jsstring" where
  "stringOf pr JNull = Inr []"
| "stringOf pr (JBool b) = Inr (if b then js ''true'' else js ''false'')"
| "stringOf pr (JNum n) = Inr (pr n)"
| "stringOf pr (JStr s) = Inr s"
| "stringOf pr (JArr vs) = joinResults (map (stringOf pr) vs) []"
| "stringOf pr (JObj kvs) =
     (if js ''toString'' \<in> set (map fst kvs)
      then Inl (Thrown (js ''toString is not a function''))
      else Inr (js ''[object Object]''))"

text \<open>
  \<^verbatim>\<open>v ?? d\<close> and \<^verbatim>\<open>v || d\<close> for a field \<open>v\<close> that may be absent (\<open>None\<close>) and a string
  default \<open>d\<close>.
\<close>

fun truthy :: "json \<Rightarrow> bool" where
  "truthy JNull = False"
| "truthy (JBool b) = b"
| "truthy (JNum n) = (n \<noteq> 0)"
| "truthy (JStr s) = (s \<noteq> [])"
| "truthy (JArr vs) = True"
| "truthy (JObj kvs) = True"

definition nullishOr :: "json option \<Rightarrow> jsstring \<Rightarrow> json" where
  "nullishOr v d = (case v of None \<Rightarrow> JStr d | Some JNull \<Rightarrow> JStr d | Some j \<Rightarrow> j)"

definition falsyOr :: "json option \<Rightarrow> jsstring \<Rightarrow> json" where
  "falsyOr v d = (case v of None \<Rightarrow> JStr d | Some j \<Rightarrow> if truthy j then j else JStr d)"

section \<open>Small utilities\<close>

text \<open>\<^verbatim>\<open>corsHeaders\<close> and \<^verbatim>\<open>json\<close>: a response is its status, headers and payload.\<close>

definition corsHeaders :: "(jsstring \<times> jsstring) list" where
  "corsHeaders =
     [(js ''Access-Control-Allow-Origin'', js ''*''),
      (js ''Access-Control-Allow-Headers'', js ''Content-Type''),
      (js ''Access-Control-Allow-Methods'', js ''POST, GET, OPTIONS'')]"

text \<open>
  \<^verbatim>\<open>sanitizeFileName\<close>: every maximal run of characters outside
  \<^verbatim>\<open>[A-Za-z0-9_.-]\<close> becomes one underscore, and the result is cut to 160 units.
\<close>

definition isFileNameUnit :: "16 word \<Rightarrow> bool" where
  "isFileNameUnit u =
     ((0x41 \<le> u \<and> u \<le> 0x5A) \<or> (0x61 \<le> u \<and> u \<le> 0x7A) \<or> (0x30 \<le> u \<and> u \<le> 0x39)
      \<or> u = 0x5F \<or> u = 0x2E \<or> u = 0x2D)"

fun replaceRuns :: "bool \<Rightarrow> jsstring \<Rightarrow> jsstring" where
  "replaceRuns inRun [] = []"
| "replaceRuns inRun (u # us) =
     (if isFileNameUnit u then u # replaceRuns False us
      else if inRun then replaceRuns True us
      else 0x5F # replaceRuns True us)"

definition sanitizeFileName :: "(real \<Rightarrow> jsstring) \<Rightarrow> json option \<Rightarrow> jserror + jsstring" where
  "sanitizeFileName pr name =
     (case stringOf pr (falsyOr name []) of
        Inl e \<Rightarrow> Inl e
      | Inr n \<Rightarrow> Inr (take 160 (replaceRuns False n)))"

definition stripDataUrlPrefix :: "jsstring \<Rightarrow> jsstring" where
  "stripDataUrlPrefix dataUrl =
     (if dataUrl = [] then []
      else (case dropWhile (\<lambda>u. u \<noteq> 0x2C) dataUrl of
              [] \<Rightarrow> dataUrl
            | comma # rest \<Rightarrow> rest))"

definition decodeBase64ToBytes :: "jsstring \<Rightarrow> jserror + 8 word list" where
  "decodeBase64ToBytes base64 =
     (case atob base64 of
        Inl e \<Rightarrow> Inl e
      | Inr bin \<Rightarrow> Inr (map ucast bin))"

section \<open>Knowledge base (SOPs)\<close>

text \<open>
  \<^verbatim>\<open>SopEntry\<close>. The field \<^verbatim>\<open>text\<close> of the source is \<open>entry_text\<close> here. The
  severity is the string the program holds at run time.
\<close>

record SopEntry =
  code :: jsstring
  name :: jsstring
  severity :: jsstring
  entry_text :: jsstring
  root_causes :: "jsstring list"
  corrective_actions :: "jsstring list"

definition KB :: "SopEntry list" where
  "KB =
     [\<lparr>code = js ''CD001-OP'',
       name = js ''Orange peel '' @ [0x2013] @ js '' textured surface'',
       severity = js ''Medium'',
       entry_text =
         js ''Uneven, orange-skin texture of the coating film. Usually linked to viscosity/leveling, excessive wet film, and overly aggressive early drying (skinning).'',
       root_causes =
         [js ''Viscosity outside process window (too high '' @ [0x2192] @ js '' poor leveling)'',
          js ''Excess wet film thickness (especially at head)'',
          js ''Aggressive early drying (IR/hot air) causing skinning'',
          js ''Insufficient airflow / uneven leveling time''],
       corrective_actions =
         [js ''Adjust viscosity to SOP DIN-4 window and re-check leveling'',
          js ''Reduce wet film thickness; verify application weight'',
          js ''Soften first zone drying; avoid premature skinning'',
          js ''Balance airflow; run structured speed/viscosity tests'']\<rparr>,
      \<lparr>code = js ''CD002-PH'',
       name = js ''Pinholes / small craters'',
       severity = js ''High'',
       entry_text =
         js ''Small holes/craters after baking; typically contamination, trapped volatiles or foam from turbulent mixing/pumping.'',
       root_causes =
         [js ''Air entrainment/turbulent mixing causing micro-bubbles'',
          js ''Surface contamination (oil/silicone) at substrate/rollers'',
          js ''Solvent balance '' @ [0x2192] @ js '' too fast surface evaporation traps volatiles'',
          js ''Humidity peaks / dirty environment''],
       corrective_actions =
         [js ''Degas lacquer; avoid turbulent mixing/pumping; check pump setup'',
          js ''Clean substrate, rollers and environment thoroughly'',
          js ''Adjust solvent balance/oven; slower initial evaporation profile'',
          js ''Compare lab bake vs line to isolate process vs formulation'']\<rparr>,
      \<lparr>code = js ''CD003-LN'',
       name = js ''Streaks / lines'',
       severity = js ''Medium'',
       entry_text =
         js ''Linear defects tied to doctor blade or roller condition; mechanical inspection and alignment are key.'',
       root_causes =
         [js ''Doctor blade wear/damage or incorrect pressure'',
          js ''Roller damage/mapping correlating with repeat length'',
          js ''Flow/viscosity imbalance amplifying mechanical marks''],
       corrective_actions =
         [js ''Inspect/replace blade; set correct pressure and alignment'',
          js ''Map rollers vs defect repeat; regrind/replace if needed'',
          js ''Cross-check viscosity/flow; run elimination tests'']\<rparr>,
      \<lparr>code = js ''CD004-AD'',
       name = js ''Poor adhesion / flaking'',
       severity = js ''High'',
       entry_text =
         js ''Loss of adhesion between layers; check pretreatment, cure of previous coats and mixing/hardener ratio.'',
       root_causes =
         [js ''Pre-treatment off-spec (washing/chemistry)'',
          js ''Under-bake of previous layer or extreme over-bake'',
          js ''Incorrect hardener ratio / exceeded pot life'',
          js ''Surface contamination (oil/silicone)''],
       corrective_actions =
         [js ''Verify pretreatment parameters + documentation'',
          js ''Check oven curve; correct under/over-bake scenarios'',
          js ''Validate hardener ratio/pot life; mix fresh batch'',
          js ''Perform tape test per SOP; ensure cleanliness'']\<rparr>,
      \<lparr>code = js ''CD005-STK'',
       name = js ''Sticking after side print'',
       severity = js ''Medium'',
       entry_text =
         js ''Blocking of side-printed sheets/caps; cooling/stack rules and film build management are central.'',
       root_causes =
         [js ''Insufficient cooling and improper stack management'',
          js ''Film build too high causing blocking'',
          js ''Crosslinker/lacquer batch sensitivity''],
       corrective_actions =
         [js ''Improve cooling; enforce stack height rules'',
          js ''Run small batch + lab oven tests to compare line vs lab'',
          js ''Evaluate crosslinker/lacquer batch; adjust formulation window'']\<rparr>]"

definition findSop :: "jsstring \<Rightarrow> SopEntry option" where
  "findSop c = find (\<lambda>e. code e = c) KB"

section \<open>The keyword fallback of \<^verbatim>\<open>handleAnalyze\<close>\<close>

text \<open>
  The score expression of the source, as JavaScript parses it. The conditional operator
  binds weaker than \<^verbatim>\<open>+\<close>, so the expression is
  \<^verbatim>\<open>((orange ? 2 : 0) + pinhole) ? 2 : (0 + adhesion)\<close>: the first parenthesis plus the
  boolean of the second (\<^verbatim>\<open>true\<close> counts 1) is the condition, 2 is the result when it
  is not zero, and the third parenthesis is reached only when it is zero.
\<close>

definition ruleScore :: "SopEntry \<Rightarrow> jsstring \<Rightarrow> real" where
  "ruleScore e t =
     (let p1 = (if includes_str (toLowerCase (entry_text e)) (js ''orange'')
                    \<and> includes_str t (js ''orange peel'') then 2 else 0 :: real);
          p2 = (includes_str (toLowerCase (entry_text e)) (js ''pinhole'')
                  \<and> (includes_str t (js ''pinholes'') \<or> includes_str t (js ''crater'')))
      in if p1 + (if p2 then 1 else 0) \<noteq> 0 then 2
         else 0 + (if includes_str t (js ''adhesion'') \<or> includes_str t (js ''tape test'')
                   then (if code e = js ''CD004-AD'' then 2 else 0)
                   else 0))"

text \<open>
  \<^verbatim>\<open>Array.prototype.sort\<close> with a comparator is stable: \<open>a\<close> stays before \<open>b\<close>
  unless the comparator is positive. Insertion from the right computes that order.
  A JavaScript number is the real it stands for: the fallback scores are 0 and 2, and
  the similarity an index returns is passed on as it is.
\<close>

fun insertBy :: "('a \<Rightarrow> 'a \<Rightarrow> real) \<Rightarrow> 'a \<Rightarrow> 'a list \<Rightarrow> 'a list" where
  "insertBy cmp x [] = [x]"
| "insertBy cmp x (y # ys) = (if cmp x y \<le> 0 then x # y # ys else y # insertBy cmp x ys)"

definition sortBy :: "('a \<Rightarrow> 'a \<Rightarrow> real) \<Rightarrow> 'a list \<Rightarrow> 'a list" where
  "sortBy cmp xs = foldr (insertBy cmp) xs []"

record MatchCandidate =
  mc_code :: jsstring
  mc_name :: jsstring
  mc_severity :: jsstring
  mc_score :: real

definition scored :: "jsstring \<Rightarrow> (SopEntry \<times> real) list" where
  "scored t = map (\<lambda>e. (e, ruleScore e t)) KB"

definition keywordFallback :: "jsstring \<Rightarrow> MatchCandidate" where
  "keywordFallback description =
     (let t = toLowerCase description;
          ranked = sortBy (\<lambda>a b. snd b - snd a) (scored t);
          top = (case ranked of [] \<Rightarrow> KB ! 0 | s # rest \<Rightarrow> fst s);
          top_score = (case ranked of [] \<Rightarrow> 0 | s # rest \<Rightarrow> snd s)
      in \<lparr>mc_code = code top, mc_name = name top, mc_severity = severity top,
          mc_score = top_score\<rparr>)"

section \<open>Bindings, effects and responses\<close>

text \<open>
  The bindings of \<^verbatim>\<open>Env\<close>. Every awaited call of a binding either raises (\<open>Inl\<close>) or
  returns (\<open>Inr\<close>); \<open>None\<close> in a result is \<^verbatim>\<open>null\<close> or \<^verbatim>\<open>undefined\<close> at the place the
  source guards with \<^verbatim>\<open>?.\<close>, \<^verbatim>\<open>??\<close> or \<^verbatim>\<open>&&\<close>. \<^verbatim>\<open>AI.run\<close> is one field per model it
  is called with. An optional binding that is not configured is \<open>None\<close>.
\<close>

record VectorizeVectorMetadata =
  md_code :: "jsstring option"
  md_name :: "jsstring option"
  md_severity :: "jsstring option"

record VectorizeMatch =
  vm_id :: jsstring
  vm_score :: real
  vm_metadata :: "VectorizeVectorMetadata option"

record VectorizeVector =
  vv_id :: jsstring
  vv_values :: "real list"
  vv_metadata :: VectorizeVectorMetadata

record Ai =
  run_embedding :: "jsstring list \<Rightarrow> jserror + real list list option"
  run_llm :: "jsstring \<Rightarrow> MatchCandidate \<Rightarrow> jserror + jsstring option"

record VectorizeIndex =
  query :: "real list \<Rightarrow> jserror + VectorizeMatch list option"
  upsert :: "VectorizeVector list \<Rightarrow> jserror + jsstring option"

record R2Bucket =
  put :: "jsstring \<Rightarrow> 8 word list \<Rightarrow> jsstring \<Rightarrow> jserror + unit"

record Env =
  AI :: Ai
  DEFECT_IMAGES :: "R2Bucket option"
  VECTORIZE_INDEX :: "VectorizeIndex option"

text \<open>What the platform supplies besides the bindings: the clock and number printing.\<close>

record Runtime =
  Date_now :: nat
  Number_toString :: "real \<Rightarrow> jsstring"

text \<open>
  A computation returns the calls it made to the bindings, in order, and either the
  value thrown or its result.
\<close>

datatype call =
    AiEmbedding "jsstring list"
  | AiLlm jsstring MatchCandidate
  | IndexQuery "real list"
  | IndexUpsert "VectorizeVector list"
  | BucketPut jsstring "8 word list" jsstring

type_synonym 'a io = "call list \<times> (jserror + 'a)"

definition io_return :: "'a \<Rightarrow> 'a io" where
  "io_return x = ([], Inr x)"

definition io_throw :: "jserror \<Rightarrow> 'a io" where
  "io_throw e = ([], Inl e)"

definition io_lift :: "jserror + 'a \<Rightarrow> 'a io" where
  "io_lift outcome = ([], outcome)"

definition io_call :: "call \<Rightarrow> jserror + 'a \<Rightarrow> 'a io" where
  "io_call c outcome = ([c], outcome)"

definition io_bind :: "'a io \<Rightarrow> ('a \<Rightarrow> 'b io) \<Rightarrow> 'b io" where
  "io_bind m f =
     (case m of
        (cs, Inl e) \<Rightarrow> (cs, Inl e)
      | (cs, Inr x) \<Rightarrow> (case f x of (ds, r) \<Rightarrow> (cs @ ds, r)))"

definition io_catch :: "'a io \<Rightarrow> (jserror \<Rightarrow> 'a io) \<Rightarrow> 'a io" where
  "io_catch m h =
     (case m of
        (cs, Inl e) \<Rightarrow> (case h e of (ds, r) \<Rightarrow> (cs @ ds, r))
      | (cs, Inr x) \<Rightarrow> (cs, Inr x))"

text \<open>The JSON bodies the handlers send, and the request body they read.\<close>

record Defect =
  d_code :: jsstring
  d_name :: jsstring
  d_severity :: jsstring
  d_root_causes :: "jsstring list"
  d_corrective_actions :: "jsstring list"

record Analysis =
  image_key :: "jsstring option"
  best_match :: MatchCandidate
  defect :: Defect
  rationale :: jsstring

datatype payload =
    HealthBody
  | Failure jsstring
  | ErrorBody jsstring
  | SeedBody "jsstring option"
  | AnalysisBody Analysis
  | ReplyBody jsstring
  | UploadBody jsstring
  | TextBody jsstring
  | NoBody

record Response =
  status :: nat
  headers :: "(jsstring \<times> jsstring) list"
  payload :: payload

definition json :: "payload \<Rightarrow> nat \<Rightarrow> Response" where
  "json obj st =
     \<lparr>status = st,
      headers = (js ''Content-Type'', js ''application/json'') # corsHeaders,
      payload = obj\<rparr>"

text \<open>
  The parsed body: the fields the handlers read, each absent or a JSON value. A parsed
  value that is not an object has none of the fields. A request whose body is not JSON,
  or is a falsy JSON value, has \<open>body = None\<close> (\<^verbatim>\<open>readJsonSafe\<close> gives \<^verbatim>\<open>null\<close>, or
  \<^verbatim>\<open>!body\<close> holds).
\<close>

record Body =
  description :: "json option"
  image_base64 :: "json option"
  filename :: "json option"
  message :: "json option"
  contentType :: "json option"
  data :: "json option"

record Request =
  http_method :: jsstring
  pathname :: jsstring
  body :: "Body option"

section \<open>Workers AI helpers\<close>

definition embedTexts :: "Env \<Rightarrow> jsstring list \<Rightarrow> (real list list) io" where
  "embedTexts env texts =
     io_bind (io_call (AiEmbedding texts) (run_embedding (AI env) texts))
       (\<lambda>res. io_return (case res of None \<Rightarrow> [] | Some d \<Rightarrow> d))"

definition llmRationale :: "Env \<Rightarrow> jsstring \<Rightarrow> MatchCandidate \<Rightarrow> jsstring io" where
  "llmRationale env desc match =
     io_bind (io_call (AiLlm desc match) (run_llm (AI env) desc match))
       (\<lambda>resp. io_return (case resp of None \<Rightarrow> [] | Some r \<Rightarrow> r))"

section \<open>Vectorize helpers\<close>

text \<open>
  The payload of \<^verbatim>\<open>seedKBIntoVectorize\<close>: \<^verbatim>\<open>KB[i]\<close> is undefined for a vector beyond
  the catalog, and reading its \<^verbatim>\<open>code\<close> raises a TypeError.
\<close>

definition seedPayload :: "real list list \<Rightarrow> jserror + VectorizeVector list" where
  "seedPayload vecs =
     (if length vecs \<le> length KB
      then Inr (map (\<lambda>(values, k).
                  \<lparr>vv_id = code k, vv_values = values,
                   vv_metadata = \<lparr>md_code = Some (code k), md_name = Some (name k),
                                  md_severity = Some (severity k)\<rparr>\<rparr>)
                (zip vecs KB))
      else Inl (Thrown (js ''Cannot read properties of undefined'')))"

definition seedKBIntoVectorize :: "Env \<Rightarrow> (jsstring option) io" where
  "seedKBIntoVectorize env =
     (case VECTORIZE_INDEX env of
        None \<Rightarrow> io_return None
      | Some idx \<Rightarrow>
          io_bind (embedTexts env (map entry_text KB)) (\<lambda>vecs.
            case seedPayload vecs of
              Inl e \<Rightarrow> io_throw e
            | Inr vectors \<Rightarrow> io_call (IndexUpsert vectors) (upsert idx vectors)))"

definition vectorizeMatch :: "Env \<Rightarrow> jsstring \<Rightarrow> (MatchCandidate option) io" where
  "vectorizeMatch env desc =
     (case VECTORIZE_INDEX env of
        None \<Rightarrow> io_return None
      | Some idx \<Rightarrow>
          io_bind (embedTexts env [desc]) (\<lambda>vecs.
            case vecs of
              [] \<Rightarrow> io_return None
            | vec # others \<Rightarrow>
                io_bind (io_call (IndexQuery vec) (query idx vec)) (\<lambda>results.
                  case results of
                    None \<Rightarrow> io_return None
                  | Some [] \<Rightarrow> io_return None
                  | Some (best # lower) \<Rightarrow>
                      io_return (Some
                        \<lparr>mc_code =
                           (case vm_metadata best of
                              None \<Rightarrow> vm_id best
                            | Some md \<Rightarrow> (case md_code md of None \<Rightarrow> vm_id best | Some c \<Rightarrow> c)),
                         mc_name =
                           (case vm_metadata best of
                              None \<Rightarrow> []
                            | Some md \<Rightarrow> (case md_name md of None \<Rightarrow> [] | Some n \<Rightarrow> n)),
                         mc_severity =
                           (case vm_metadata best of
                              None \<Rightarrow> js ''Medium''
                            | Some md \<Rightarrow>
                                (case md_severity md of None \<Rightarrow> js ''Medium'' | Some v \<Rightarrow> v)),
                         mc_score = vm_score best\<rparr>))))"

section \<open>Route handlers\<close>

definition handleHealth :: "Response io" where
  "handleHealth = io_return (json HealthBody 200)"

definition handleSeed :: "Env \<Rightarrow> Response io" where
  "handleSeed env =
     (case VECTORIZE_INDEX env of
        None \<Rightarrow> io_return (json (Failure (js ''VECTORIZE_INDEX binding missing'')) 500)
      | Some idx \<Rightarrow>
          io_bind (seedKBIntoVectorize env) (\<lambda>mutationId.
          io_return (json (SeedBody mutationId) 200)))"

text \<open>
  The optional image block of \<^verbatim>\<open>handleAnalyze\<close>. \<^verbatim>\<open>image_key\<close> is assigned after the
  decoding and before the \<^verbatim>\<open>put\<close>; the \<^verbatim>\<open>catch\<close> leaves it as it is.
\<close>

definition storeImage :: "Runtime \<Rightarrow> Env \<Rightarrow> jsstring \<Rightarrow> jsstring \<Rightarrow> (jsstring option) io" where
  "storeImage rt env image_b64 filenameIn =
     (case DEFECT_IMAGES env of
        None \<Rightarrow> io_return None
      | Some bucket \<Rightarrow>
          if image_b64 = [] then io_return None
          else
            (case decodeBase64ToBytes (stripDataUrlPrefix image_b64) of
               Inl e \<Rightarrow> io_return None
             | Inr bytes \<Rightarrow>
                 (let key = js ''uploads/'' @ showNat (Date_now rt) @ js ''_''
                              @ (if filenameIn = [] then js ''defect.jpg'' else filenameIn)
                  in io_catch
                       (io_bind
                          (io_call (BucketPut key bytes (js ''image/jpeg''))
                             (put bucket key bytes (js ''image/jpeg'')))
                          (\<lambda>u. io_return (Some key)))
                       (\<lambda>e. io_return (Some key)))))"

definition handleAnalyze :: "Runtime \<Rightarrow> Env \<Rightarrow> Request \<Rightarrow> Response io" where
  "handleAnalyze rt env request =
     (case body request of
        None \<Rightarrow> io_return (json (Failure (js ''Invalid JSON'')) 400)
      | Some b \<Rightarrow>
          io_bind (io_lift (stringOf (Number_toString rt) (nullishOr (description b) [])))
            (\<lambda>desc.
          io_bind (io_lift (stringOf (Number_toString rt) (nullishOr (image_base64 b) [])))
            (\<lambda>image_b64.
          io_bind (io_lift (sanitizeFileName (Number_toString rt)
                              (Some (nullishOr (filename b) []))))
            (\<lambda>filenameIn.
          io_bind (storeImage rt env image_b64 filenameIn) (\<lambda>key.
          io_bind (vectorizeMatch env desc) (\<lambda>vm.
            let match = (case vm of None \<Rightarrow> keywordFallback desc | Some m \<Rightarrow> m);
                sop = (case findSop (mc_code match) of None \<Rightarrow> KB ! 0 | Some e \<Rightarrow> e)
            in io_bind (llmRationale env desc match) (\<lambda>r.
                 io_return
                   (json
                      (AnalysisBody
                         \<lparr>image_key = key,
                          best_match = match,
                          defect =
                            \<lparr>d_code = code sop, d_name = name sop,
                             d_severity = severity sop,
                             d_root_causes = root_causes sop,
                             d_corrective_actions = corrective_actions sop\<rparr>,
                          rationale = r\<rparr>)
                      200))))))))"

text \<open>
  The reply of \<^verbatim>\<open>handleChat\<close> from the JSON it reads back. \<^verbatim>\<open>handleAnalyze\<close> sends an
  analysis or a failure; a body without the fields prints them as \<^verbatim>\<open>undefined\<close>.
\<close>

definition replyLines :: "jsstring \<Rightarrow> jsstring \<Rightarrow> jsstring \<Rightarrow> jsstring \<Rightarrow> jsstring \<Rightarrow> jsstring" where
  "replyLines c n s scoreLine r =
     js ''Based on your description, a likely match is:'' @ [0x0A]
     @ [0x2022] @ js '' Code: '' @ c @ [0x0A]
     @ [0x2022] @ js '' Name: '' @ n @ [0x0A]
     @ [0x2022] @ js '' Severity: '' @ s @ [0x0A]
     @ scoreLine
     @ (if r = []
        then js ''Full SOP steps are part of the CoatDoctor handbook and internal engine.''
        else r)"

fun chatReply :: "Runtime \<Rightarrow> payload \<Rightarrow> jsstring" where
  "chatReply rt (Failure e) =
     js ''I could not reach the analysis engine right now. Please try again later.''"
| "chatReply rt (AnalysisBody a) =
     replyLines (mc_code (best_match a)) (d_name (defect a)) (mc_severity (best_match a))
       ([0x2022] @ js '' Match score (demo): ''
          @ Number_toString rt (mc_score (best_match a)) @ [0x0A, 0x0A])
       (rationale a)"
| "chatReply rt other =
     replyLines (js ''undefined'') (js ''undefined'') (js ''undefined'') [] []"

definition handleChat :: "Runtime \<Rightarrow> Env \<Rightarrow> Request \<Rightarrow> Response io" where
  "handleChat rt env request =
     (case body request of
        None \<Rightarrow> io_return (json (ErrorBody (js ''Invalid JSON'')) 400)
      | Some b \<Rightarrow>
          io_bind (io_lift (stringOf (Number_toString rt) (nullishOr (message b) [])))
            (\<lambda>raw.
             let msg = trim raw
             in if msg = [] \<or> length msg < 3 then
                  io_return
                    (json
                       (ReplyBody
                          (js ''Please describe the defect in more detail '' @ [0x2013]
                             @ js '' substrate, coating type, drying, line speed, etc.''))
                       200)
                else
                  io_bind
                    (handleAnalyze rt env
                       \<lparr>http_method = js ''POST'', pathname = js ''/api/analyze'',
                        body = Some \<lparr>description = Some (JStr msg), image_base64 = None,
                                      filename = None, message = None, contentType = None,
                                      data = None\<rparr>\<rparr>)
                    (\<lambda>analyzeRes.
                       io_return (json (ReplyBody (chatReply rt (payload analyzeRes))) 200))))"

definition handleUpload :: "Runtime \<Rightarrow> Env \<Rightarrow> Request \<Rightarrow> Response io" where
  "handleUpload rt env request =
     (case DEFECT_IMAGES env of
        None \<Rightarrow> io_return (json (ErrorBody (js ''R2 bucket not configured'')) 500)
      | Some bucket \<Rightarrow>
          (case body request of
             None \<Rightarrow> io_return (json (ErrorBody (js ''Invalid JSON'')) 400)
           | Some b \<Rightarrow>
               io_bind (io_lift (sanitizeFileName (Number_toString rt)
                                   (Some (falsyOr (filename b) []))))
                 (\<lambda>fname.
               io_bind (io_lift (stringOf (Number_toString rt)
                                   (falsyOr (contentType b) (js ''image/jpeg''))))
                 (\<lambda>ctype.
               io_bind (io_lift (stringOf (Number_toString rt) (falsyOr (data b) [])))
                 (\<lambda>base64Data.
                  if fname = [] \<or> base64Data = [] then
                    io_return (json (ErrorBody (js ''Missing filename or data'')) 400)
                  else
                    (case decodeBase64ToBytes (stripDataUrlPrefix base64Data) of
                       Inl e \<Rightarrow> io_return (json (ErrorBody (js ''Invalid base64 data'')) 400)
                     | Inr bytes \<Rightarrow>
                         io_bind
                           (io_call (BucketPut (js ''clients/'' @ fname) bytes ctype)
                              (put bucket (js ''clients/'' @ fname) bytes ctype))
                           (\<lambda>u. io_return
                                  (json (UploadBody (js ''clients/'' @ fname)) 200))))))))"

section \<open>Router\<close>

definition route :: "Runtime \<Rightarrow> Env \<Rightarrow> Request \<Rightarrow> Response io" where
  "route rt env request =
     (if pathname request = js ''/api/health'' \<and> http_method request = js ''GET''
        then handleHealth
      else if pathname request = js ''/api/seed'' \<and> http_method request = js ''POST''
        then handleSeed env
      else if pathname request = js ''/api/analyze'' \<and> http_method request = js ''POST''
        then handleAnalyze rt env request
      else if pathname request = js ''/api/chat'' \<and> http_method request = js ''POST''
        then handleChat rt env request
      else if pathname request = js ''/api/upload'' \<and> http_method request = js ''POST''
        then handleUpload rt env request
      else io_return
             \<lparr>status = 404, headers = corsHeaders, payload = TextBody (js ''Not found'')\<rparr>)"

definition fetch :: "Runtime \<Rightarrow> Env \<Rightarrow> Request \<Rightarrow> Response io" where
  "fetch rt env request =
     (if http_method request = js ''OPTIONS''
      then io_return \<lparr>status = 204, headers = corsHeaders, payload = NoBody\<rparr>
      else io_catch (route rt env request)
             (\<lambda>err. io_return (json (Failure (message_of err)) 500)))"

section \<open>The additive score of the specification\<close>

text \<open>
  The score as the specification words it: three rules, each worth 2 when the topic
  keyword is in the entry text and the phrase is in the description (the adhesion rule
  names its entry by code), added up.
\<close>

definition orangeRule :: "SopEntry \<Rightarrow> jsstring \<Rightarrow> real" where
  "orangeRule e t =
     (if includes_str (toLowerCase (entry_text e)) (js ''orange'')
           \<and> includes_str t (js ''orange peel'')
      then 2 else 0)"

definition pinholeRule :: "SopEntry \<Rightarrow> jsstring \<Rightarrow> real" where
  "pinholeRule e t =
     (if includes_str (toLowerCase (entry_text e)) (js ''pinhole'')
           \<and> (includes_str t (js ''pinholes'') \<or> includes_str t (js ''crater''))
      then 2 else 0)"

definition adhesionRule :: "SopEntry \<Rightarrow> jsstring \<Rightarrow> real" where
  "adhesionRule e t =
     (if includes_str t (js ''adhesion'') \<or> includes_str t (js ''tape test'')
      then (if code e = js ''CD004-AD'' then 2 else 0)
      else 0)"

definition additiveScore :: "SopEntry \<Rightarrow> jsstring \<Rightarrow> real" where
  "additiveScore e t = orangeRule e t + pinholeRule e t + adhesionRule e t"

section \<open>Example bindings and requests\<close>

text \<open>Concrete bindings and requests, for the instances of the theorems below.\<close>

definition exampleRuntime :: Runtime where
  "exampleRuntime =
     \<lparr>Date_now = 1700000000000, Number_toString = (\<lambda>x. showNat (nat \<lfloor>x\<rfloor>))\<rparr>"

definition exampleAi :: Ai where
  "exampleAi =
     \<lparr>run_embedding = (\<lambda>texts. Inr (Some (map (\<lambda>t. [1, 0]) texts))),
      run_llm = (\<lambda>d m. Inr (Some (js ''Check viscosity and film thickness first.'')))\<rparr>"

definition exampleBucket :: R2Bucket where
  "exampleBucket = \<lparr>put = (\<lambda>k bytes ctype. Inr ())\<rparr>"

definition exampleIndex :: VectorizeIndex where
  "exampleIndex =
     \<lparr>query = (\<lambda>v. Inr (Some [\<lparr>vm_id = js ''CD002-PH'', vm_score = 0.9,
                                 vm_metadata = Some \<lparr>md_code = Some (js ''CD002-PH''),
                                   md_name = Some (js ''Pinholes / small craters''),
                                   md_severity = Some (js ''High'')\<rparr>\<rparr>])),
      upsert = (\<lambda>vectors. Inr (Some (js ''mutation-1'')))\<rparr>"

definition envNoIndex :: Env where
  "envNoIndex = \<lparr>AI = exampleAi, DEFECT_IMAGES = Some exampleBucket, VECTORIZE_INDEX = None\<rparr>"


definition envEmbeddingFails :: Env where
  "envEmbeddingFails =
     \<lparr>AI = exampleAi\<lparr>run_embedding :=
             (\<lambda>texts. Inl (Thrown (js ''embedding service unavailable'')))\<rparr>,
      DEFECT_IMAGES = None, VECTORIZE_INDEX = Some exampleIndex\<rparr>"

definition envQueryFails :: Env where
  "envQueryFails =
     \<lparr>AI = exampleAi, DEFECT_IMAGES = None,
      VECTORIZE_INDEX =
        Some (exampleIndex\<lparr>query := (\<lambda>v. Inl (Thrown (js ''index query timed out'')))\<rparr>)\<rparr>"

definition envRationaleFails :: Env where
  "envRationaleFails =
     \<lparr>AI = exampleAi\<lparr>run_llm := (\<lambda>d m. Inl (Thrown (js ''model overloaded'')))\<rparr>,
      DEFECT_IMAGES = None, VECTORIZE_INDEX = None\<rparr>"

definition envRationaleSilent :: Env where
  "envRationaleSilent =
     \<lparr>AI = exampleAi\<lparr>run_llm := (\<lambda>d m. Inr None)\<rparr>,
      DEFECT_IMAGES = None, VECTORIZE_INDEX = None\<rparr>"


text \<open>Requests whose fields are strings, and requests with any JSON value in a field.\<close>

definition analyzeRequest :: "jsstring option \<Rightarrow> jsstring option \<Rightarrow> Request" where
  "analyzeRequest d img =
     \<lparr>http_method = js ''POST'', pathname = js ''/api/analyze'',
      body = Some \<lparr>description = map_option JStr d, image_base64 = map_option JStr img,
                    filename = None, message = None, contentType = None, data = None\<rparr>\<rparr>"

definition rawAnalyzeRequest :: "json option \<Rightarrow> json option \<Rightarrow> json option \<Rightarrow> Request" where
  "rawAnalyzeRequest d img f =
     \<lparr>http_method = js ''POST'', pathname = js ''/api/analyze'',
      body = Some \<lparr>description = d, image_base64 = img, filename = f, message = None,
                    contentType = None, data = None\<rparr>\<rparr>"

definition chatRequest :: "jsstring \<Rightarrow> Request" where
  "chatRequest m =
     \<lparr>http_method = js ''POST'', pathname = js ''/api/chat'',
      body = Some \<lparr>description = None, image_base64 = None, filename = None,
                    message = Some (JStr m), contentType = None, data = None\<rparr>\<rparr>"

definition seedRequest :: Request where
  "seedRequest = \<lparr>http_method = js ''POST'', pathname = js ''/api/seed'', body = None\<rparr>"

section \<open>String literals\<close>

lemma unat_js_unit: "unat (of_nat (of_char c) :: 16 word) = of_char c"
proof -
  have "(of_char c :: nat) < 65536"
    using nat_of_char_less_256 [of c] by linarith
  then show ?thesis by (simp add: unat_of_nat)
qed

lemma js_unit_inj: "((of_nat (of_char a) :: 16 word) = of_nat (of_char b)) = (a = b)"
  by (metis unat_js_unit of_char_eq_iff)

lemma js_eq_iff: "(js a = js b) = (a = b)"
  unfolding js_def by (rule inj_map_eq_map) (simp add: inj_on_def js_unit_inj)

section \<open>Facts about the catalog\<close>

lemma KB_length: "length KB = 5"
  by (simp add: KB_def)



lemma KB_first: "code (KB ! 0) = js ''CD001-OP''" "severity (KB ! 0) = js ''Medium''"
  by (simp_all add: KB_def)

lemma KB_fourth: "code (KB ! 3) = js ''CD004-AD''" "severity (KB ! 3) = js ''High''"
  by (simp_all add: KB_def)

lemma KB_text_orange_all:
  "list_all (\<lambda>e. includes_str (toLowerCase (entry_text e)) (js ''orange'')
                   = (code e = js ''CD001-OP'')) KB"
  by (simp add: KB_def js_eq_iff) code_simp

lemma KB_text_pinhole_all:
  "list_all (\<lambda>e. \<not> includes_str (toLowerCase (entry_text e)) (js ''pinhole'')) KB"
  by (simp add: KB_def) code_simp

lemma KB_text_orange:
  "e \<in> set KB \<Longrightarrow>
     includes_str (toLowerCase (entry_text e)) (js ''orange'') = (code e = js ''CD001-OP'')"
  using KB_text_orange_all by (simp add: list_all_iff)

lemma KB_text_pinhole:
  "e \<in> set KB \<Longrightarrow> \<not> includes_str (toLowerCase (entry_text e)) (js ''pinhole'')"
  using KB_text_pinhole_all by (simp add: list_all_iff)

section \<open>The score on the catalog\<close>

lemma ruleScore_KB:
  "e \<in> set KB \<Longrightarrow> ruleScore e t =
     (if code e = js ''CD001-OP'' \<and> includes_str t (js ''orange peel'') then 2
      else if code e = js ''CD004-AD''
              \<and> (includes_str t (js ''adhesion'') \<or> includes_str t (js ''tape test'')) then 2
      else 0)"
  by (simp add: ruleScore_def KB_text_orange KB_text_pinhole js_eq_iff)

lemma additiveScore_KB:
  "e \<in> set KB \<Longrightarrow> additiveScore e t =
     (if code e = js ''CD001-OP'' \<and> includes_str t (js ''orange peel'') then 2
      else if code e = js ''CD004-AD''
              \<and> (includes_str t (js ''adhesion'') \<or> includes_str t (js ''tape test'')) then 2
      else 0)"
  by (simp add: additiveScore_def orangeRule_def pinholeRule_def adhesionRule_def
        KB_text_orange KB_text_pinhole js_eq_iff)

lemma ruleScore_KB_le: "e \<in> set KB \<Longrightarrow> ruleScore e t \<le> 2"
  by (simp add: ruleScore_KB)

lemma scored_KB:
  "scored t = map (\<lambda>e. (e,
     if code e = js ''CD001-OP'' \<and> includes_str t (js ''orange peel'') then 2
      else if code e = js ''CD004-AD''
              \<and> (includes_str t (js ''adhesion'') \<or> includes_str t (js ''tape test'')) then 2
      else 0)) KB"
  unfolding scored_def by (rule map_cong [OF refl]) (simp only: ruleScore_KB)

section \<open>The stable sort and its first element\<close>

lemma insertBy_not_Nil: "insertBy cmp x ys \<noteq> []"
  by (cases ys) simp_all

lemma sortBy_Cons: "sortBy cmp (x # xs) = insertBy cmp x (sortBy cmp xs)"
  by (simp add: sortBy_def)

lemma sortBy_Nil_iff: "sortBy cmp xs = [] \<longleftrightarrow> xs = []"
  by (cases xs) (simp_all add: sortBy_def insertBy_not_Nil)

lemma sortBy_top_first_max:
  fixes xs :: "('a \<times> real) list"
  assumes "xs \<noteq> []"
  shows "\<exists>i<length xs. hd (sortBy (\<lambda>a b. snd b - snd a) xs) = xs ! i
           \<and> (\<forall>j<length xs. snd (xs ! j) \<le> snd (xs ! i))
           \<and> (\<forall>j<i. snd (xs ! j) < snd (xs ! i))"
  using assms
proof (induction xs rule: list_nonempty_induct)
  case (single x)
  show ?case by (simp add: sortBy_def)
next
  case (cons x xs)
  let ?cmp = "\<lambda>(a :: 'a \<times> real) (b :: 'a \<times> real). snd b - snd a"
  from cons.IH obtain i where i: "i < length xs"
    and top: "hd (sortBy ?cmp xs) = xs ! i"
    and mx: "\<forall>j<length xs. snd (xs ! j) \<le> snd (xs ! i)"
    and before: "\<forall>j<i. snd (xs ! j) < snd (xs ! i)"
    by blast
  from cons.hyps obtain y r where yr: "sortBy ?cmp xs = y # r"
    by (cases "sortBy ?cmp xs") (simp_all add: sortBy_Nil_iff)
  with top have y: "y = xs ! i" by simp
  show ?case
  proof (cases "snd y \<le> snd x")
    case True
    then have "hd (sortBy ?cmp (x # xs)) = (x # xs) ! 0"
      by (simp add: sortBy_Cons yr)
    moreover have "\<forall>j<length (x # xs). snd ((x # xs) ! j) \<le> snd ((x # xs) ! 0)"
    proof (intro allI impI)
      fix j assume "j < length (x # xs)"
      then show "snd ((x # xs) ! j) \<le> snd ((x # xs) ! 0)"
        using mx True y by (cases j) (auto intro: order_trans)
    qed
    ultimately show ?thesis by (intro exI [of _ 0]) simp
  next
    case False
    then have "hd (sortBy ?cmp (x # xs)) = (x # xs) ! Suc i"
      by (simp add: sortBy_Cons yr y)
    moreover have "\<forall>j<length (x # xs). snd ((x # xs) ! j) \<le> snd ((x # xs) ! Suc i)"
    proof (intro allI impI)
      fix j assume "j < length (x # xs)"
      then show "snd ((x # xs) ! j) \<le> snd ((x # xs) ! Suc i)"
        using mx False y by (cases j) auto
    qed
    moreover have "\<forall>j<Suc i. snd ((x # xs) ! j) < snd ((x # xs) ! Suc i)"
    proof (intro allI impI)
      fix j assume "j < Suc i"
      then show "snd ((x # xs) ! j) < snd ((x # xs) ! Suc i)"
        using before False y by (cases j) auto
    qed
    ultimately show ?thesis using i by (intro exI [of _ "Suc i"]) simp
  qed
qed

text \<open>The result is ordered by score, highest first, and keeps the order of equal scores.\<close>

lemma set_insertBy: "set (insertBy cmp x ys) = insert x (set ys)"
  by (induction ys) auto

lemma sorted_insertBy:
  fixes ys :: "('a \<times> real) list"
  shows "sorted_wrt (\<lambda>a b. snd b \<le> snd a) ys \<Longrightarrow>
     sorted_wrt (\<lambda>a b. snd b \<le> snd a) (insertBy (\<lambda>a b. snd b - snd a) x ys)"
  by (induction ys) (auto simp: set_insertBy)

lemma sortBy_sorted:
  fixes xs :: "('a \<times> real) list"
  shows "sorted_wrt (\<lambda>a b. snd b \<le> snd a) (sortBy (\<lambda>a b. snd b - snd a) xs)"
  by (induction xs) (simp_all add: sortBy_def sorted_insertBy)

lemma filter_insertBy:
  fixes ys :: "('a \<times> real) list"
  shows "sorted_wrt (\<lambda>a b. snd b \<le> snd a) ys \<Longrightarrow>
     filter (\<lambda>z. snd z = k) (insertBy (\<lambda>a b. snd b - snd a) x ys)
       = filter (\<lambda>z. snd z = k) (x # ys)"
  by (induction ys) auto

lemma sortBy_stable:
  fixes xs :: "('a \<times> real) list"
  shows "filter (\<lambda>z. snd z = k) (sortBy (\<lambda>a b. snd b - snd a) xs) = filter (\<lambda>z. snd z = k) xs"
proof (induction xs)
  case Nil
  show ?case by (simp add: sortBy_def)
next
  case (Cons x xs)
  have "filter (\<lambda>z. snd z = k) (sortBy (\<lambda>a b. snd b - snd a) (x # xs))
      = filter (\<lambda>z. snd z = k) (x # sortBy (\<lambda>a b. snd b - snd a) xs)"
    unfolding sortBy_Cons by (rule filter_insertBy [OF sortBy_sorted])
  with Cons.IH show ?case by simp
qed

section \<open>The keyword fallback in closed form\<close>

lemma keywordFallback_eq:
  "keywordFallback d =
     (if includes_str (toLowerCase d) (js ''orange peel'') then
        \<lparr>mc_code = code (KB ! 0), mc_name = name (KB ! 0), mc_severity = severity (KB ! 0),
         mc_score = 2\<rparr>
      else if includes_str (toLowerCase d) (js ''adhesion'')
              \<or> includes_str (toLowerCase d) (js ''tape test'') then
        \<lparr>mc_code = code (KB ! 3), mc_name = name (KB ! 3), mc_severity = severity (KB ! 3),
         mc_score = 2\<rparr>
      else
        \<lparr>mc_code = code (KB ! 0), mc_name = name (KB ! 0), mc_severity = severity (KB ! 0),
         mc_score = 0\<rparr>)"
  unfolding keywordFallback_def Let_def scored_KB
  by (simp add: KB_def sortBy_def js_eq_iff)

lemma findSop_KB:
  "findSop (js ''CD001-OP'') = Some (KB ! 0)" "findSop (js ''CD004-AD'') = Some (KB ! 3)"
  by (simp_all add: findSop_def KB_def js_eq_iff)





lemma startsWith_empty_text [simp]: "startsWith [] (js (c # cs)) = False"
  by (simp add: js_def)

lemma toLowerCase_Nil [simp]: "toLowerCase [] = []"
  by (simp add: toLowerCase_def)

lemma orange_peel_defect:
  "includes_str (toLowerCase (js ''orange peel defect'')) (js ''orange peel'')"
  by code_simp

lemma keywordFallback_orange_peel_defect:
  "keywordFallback (js ''orange peel defect'') =
     \<lparr>mc_code = js ''CD001-OP'', mc_name = name (KB ! 0), mc_severity = js ''Medium'',
      mc_score = 2\<rparr>"
  by (simp add: keywordFallback_eq orange_peel_defect KB_first)

lemma keywordFallback_empty:
  "keywordFallback [] =
     \<lparr>mc_code = js ''CD001-OP'', mc_name = name (KB ! 0), mc_severity = js ''Medium'',
      mc_score = 0\<rparr>"
  by (simp add: keywordFallback_eq KB_first)

lemma tape_test_failed:
  "\<not> includes_str (toLowerCase (js ''Tape test failed'')) (js ''orange peel'')"
  "includes_str (toLowerCase (js ''Tape test failed'')) (js ''tape test'')"
  by code_simp+

text \<open>
  Outside the catalog the parsed expression is not the sum: an entry with the orange
  keyword and the adhesion code earns 2 where the three rules add up to 4.
\<close>

lemma ruleScore_not_additive_outside_KB:
  "ruleScore ((KB ! 0)\<lparr>code := js ''CD004-AD''\<rparr>) (js ''orange peel, poor adhesion'') = 2
   \<and> additiveScore ((KB ! 0)\<lparr>code := js ''CD004-AD''\<rparr>) (js ''orange peel, poor adhesion'') = 4"
proof -
  have m0: "KB ! 0 \<in> set KB" by (simp add: KB_length)
  have t: "includes_str (js ''orange peel, poor adhesion'') (js ''orange peel'')"
    "includes_str (js ''orange peel, poor adhesion'') (js ''adhesion'')"
    by code_simp+
  show ?thesis
    using KB_text_orange [OF m0] KB_text_pinhole [OF m0]
    by (simp add: ruleScore_def additiveScore_def orangeRule_def pinholeRule_def
          adhesionRule_def KB_first t)
qed

section \<open>Effects\<close>

lemma io_bind_return [simp]: "io_bind (io_return x) f = f x"
  by (simp add: io_bind_def io_return_def split: prod.splits)

lemma io_bind_pure [simp]: "io_bind ([], Inr x) f = f x"
  by (simp add: io_bind_def split: prod.splits)

lemma io_bind_returned [simp]: "io_bind (cs, Inr x) f = (cs @ fst (f x), snd (f x))"
  by (simp add: io_bind_def split: prod.splits)

lemma io_bind_raised [simp]: "io_bind (cs, Inl e) f = (cs, Inl e)"
  by (simp add: io_bind_def)

lemma io_bind_call_Inr [simp]: "io_bind (io_call c (Inr x)) f = (c # fst (f x), snd (f x))"
  by (simp add: io_bind_def io_call_def split: prod.splits)

lemma io_bind_call_Inl [simp]: "io_bind (io_call c (Inl e)) f = ([c], Inl e)"
  by (simp add: io_bind_def io_call_def)

lemma snd_io_bind:
  "snd (io_bind m f) = (case snd m of Inl e \<Rightarrow> Inl e | Inr x \<Rightarrow> snd (f x))"
  by (cases m) (simp add: io_bind_def split: sum.splits prod.splits)

lemma fst_io_bind:
  "fst (io_bind m f) = (case snd m of Inl e \<Rightarrow> fst m | Inr x \<Rightarrow> fst m @ fst (f x))"
  by (cases m) (simp add: io_bind_def split: sum.splits prod.splits)

lemma io_catch_returned [simp]: "io_catch (cs, Inr x) h = (cs, Inr x)"
  by (simp add: io_catch_def)

lemma io_catch_raised [simp]: "io_catch (cs, Inl e) h = (cs @ fst (h e), snd (h e))"
  by (simp add: io_catch_def split: prod.splits)

lemma snd_io_catch:
  "snd (io_catch m h) = (case snd m of Inl e \<Rightarrow> snd (h e) | Inr x \<Rightarrow> Inr x)"
  by (cases m) (simp add: io_catch_def split: sum.splits prod.splits)

lemma snd_io_return [simp]: "snd (io_return x) = Inr x" and fst_io_return [simp]: "fst (io_return x) = []"
  by (simp_all add: io_return_def)

lemma io_catch_call:
  "snd (io_catch (io_bind (io_call c outcome) (\<lambda>u. io_return x)) (\<lambda>e. io_return x)) = Inr x"
  by (cases outcome) (simp_all add: io_call_def io_bind_def io_catch_def io_return_def)

section \<open>The image block\<close>

lemma storeImage_returns: "\<exists>k. snd (storeImage rt env i f) = Inr k"
  by (simp add: storeImage_def Let_def io_catch_call split: option.splits sum.splits)

lemma storeImage_no_image: "storeImage rt env [] f = ([], Inr None)"
  by (simp add: storeImage_def io_return_def split: option.splits)

lemma storeImage_decode_fails:
  "decodeBase64ToBytes (stripDataUrlPrefix i) = Inl e \<Longrightarrow> storeImage rt env i f = ([], Inr None)"
  by (simp add: storeImage_def io_return_def split: option.splits)

lemma storeImage_calls:
  "c \<in> set (fst (storeImage rt env i f)) \<Longrightarrow> \<exists>k bytes ctype. c = BucketPut k bytes ctype"
  by (auto simp: storeImage_def Let_def io_return_def io_call_def io_bind_def io_catch_def
        split: option.splits sum.splits if_splits)

lemma undecodable_image:
  "decodeBase64ToBytes (stripDataUrlPrefix (js ''data:image/jpeg;base64,@@not-base64@@''))
     = Inl (Thrown (js ''InvalidCharacterError''))"
  by code_simp

lemma decode_example:
  "decodeBase64ToBytes (stripDataUrlPrefix (js ''data:image/jpeg;base64,aGk='')) = Inr [0x68, 0x69]"
  by code_simp

lemma decodable_image_is_stored:
  "storeImage exampleRuntime envNoIndex (js ''data:image/jpeg;base64,aGk='') []
     = ([BucketPut (js ''uploads/1700000000000_defect.jpg'') [0x68, 0x69] (js ''image/jpeg'')],
        Inr (Some (js ''uploads/1700000000000_defect.jpg'')))"
proof -
  have ne: "js ''data:image/jpeg;base64,aGk='' \<noteq> []" by (simp add: js_def)
  show ?thesis
    by (simp add: storeImage_def envNoIndex_def exampleBucket_def exampleRuntime_def
          decode_example ne io_call_def io_return_def io_bind_def io_catch_def)
       (simp add: js_def Let_def)
qed

text \<open>
  When the \<^verbatim>\<open>put\<close> raises, the key is already assigned and stays in the response.
\<close>

lemma storeImage_put_raises:
  assumes "DEFECT_IMAGES env = Some bucket" and "img \<noteq> []"
    and "decodeBase64ToBytes (stripDataUrlPrefix img) = Inr bytes"
    and "key = js ''uploads/'' @ showNat (Date_now rt) @ js ''_''
                 @ (if f = [] then js ''defect.jpg'' else f)"
    and "put bucket key bytes (js ''image/jpeg'') = Inl e"
  shows "storeImage rt env img f = ([BucketPut key bytes (js ''image/jpeg'')], Inr (Some key))"
  using assms
  by (simp add: storeImage_def Let_def io_call_def io_bind_def io_catch_def io_return_def)

section \<open>The match resolution and the rationale\<close>

lemma vectorizeMatch_no_index:
  "VECTORIZE_INDEX env = None \<Longrightarrow> vectorizeMatch env d = ([], Inr None)"
  by (simp add: vectorizeMatch_def io_return_def)

lemma vectorizeMatch_raises:
  assumes idx: "VECTORIZE_INDEX env = Some idx"
    and fails: "run_embedding (AI env) [d] = Inl e
       \<or> (\<exists>v vs. run_embedding (AI env) [d] = Inr (Some (v # vs)) \<and> query idx v = Inl e)"
  shows "snd (vectorizeMatch env d) = Inl e"
    and "\<forall>x m. AiLlm x m \<notin> set (fst (vectorizeMatch env d))"
  using fails
  by (auto simp: vectorizeMatch_def idx embedTexts_def io_return_def)

lemma fst_vectorizeMatch:
  "VECTORIZE_INDEX env = Some idx \<Longrightarrow> fst (vectorizeMatch env d) \<noteq> []"
  by (cases "run_embedding (AI env) [d]")
     (simp_all add: vectorizeMatch_def embedTexts_def fst_io_bind)

lemma llmRationale_returns:
  "run_llm (AI env) d m = Inr resp \<Longrightarrow>
     llmRationale env d m = ([AiLlm d m], Inr (case resp of None \<Rightarrow> [] | Some r \<Rightarrow> r))"
  by (simp add: llmRationale_def io_return_def)

lemma llmRationale_raises:
  "run_llm (AI env) d m = Inl e \<Longrightarrow> llmRationale env d m = ([AiLlm d m], Inl e)"
  by (simp add: llmRationale_def)

lemma fst_llmRationale: "fst (llmRationale env d m) \<noteq> []"
  by (cases "run_llm (AI env) d m") (simp_all add: llmRationale_def)

section \<open>Reading the fields of a body\<close>

lemma io_bind_lift_Inr [simp]: "io_bind (io_lift (Inr x)) f = f x"
  by (simp add: io_lift_def)

lemma io_bind_lift_Inl [simp]: "io_bind (io_lift (Inl e)) f = ([], Inl e)"
  by (simp add: io_lift_def)

lemma nullishOr_simps [simp]:
  "nullishOr None d = JStr d"
  "nullishOr (Some JNull) d = JStr d"
  "nullishOr (Some (JStr s)) d = JStr s"
  "nullishOr (Some (JObj kvs)) d = JObj kvs"
  by (simp_all add: nullishOr_def)

lemma sanitizeFileName_empty [simp]: "sanitizeFileName pr (Some (JStr [])) = Inr []"
  by (simp add: sanitizeFileName_def falsyOr_def)

text \<open>A field that is absent or a string always converts.\<close>

lemma string_field_converts:
  "stringOf pr (nullishOr None []) = Inr []"
  "stringOf pr (nullishOr (Some (JStr s)) []) = Inr s"
  "sanitizeFileName pr (Some (nullishOr None [])) = Inr []"
  "sanitizeFileName pr (Some (nullishOr (Some (JStr s)) []))
     = Inr (take 160 (replaceRuns False (if s = [] then [] else s)))"
  by (simp_all add: sanitizeFileName_def falsyOr_def)

lemma stringOf_own_toString:
  "stringOf pr (JObj [(js ''toString'', v)]) = Inl (Thrown (js ''toString is not a function''))"
  by simp

lemma analyzeRequest_body:
  "body (analyzeRequest d img) =
     Some \<lparr>description = map_option JStr d, image_base64 = map_option JStr img,
           filename = None, message = None, contentType = None, data = None\<rparr>"
  by (simp add: analyzeRequest_def)

lemma analyzeRequest_route:
  "http_method (analyzeRequest d img) = js ''POST''"
  "pathname (analyzeRequest d img) = js ''/api/analyze''"
  by (simp_all add: analyzeRequest_def)

section \<open>The analyze handler\<close>

lemma handleAnalyze_returns:
  assumes b: "body request = Some b"
    and d: "stringOf (Number_toString rt) (nullishOr (description b) []) = Inr d"
    and i: "stringOf (Number_toString rt) (nullishOr (image_base64 b) []) = Inr img"
    and f: "sanitizeFileName (Number_toString rt) (Some (nullishOr (filename b) [])) = Inr fn"
    and st: "snd (storeImage rt env img fn) = Inr key"
    and vm: "snd (vectorizeMatch env d) = Inr vm"
    and m: "m = (case vm of None \<Rightarrow> keywordFallback d | Some c \<Rightarrow> c)"
    and sop: "sop = (case findSop (mc_code m) of None \<Rightarrow> KB ! 0 | Some e \<Rightarrow> e)"
    and llm: "run_llm (AI env) d m = Inr resp"
  shows "snd (handleAnalyze rt env request) =
     Inr (json (AnalysisBody
            \<lparr>image_key = key, best_match = m,
             defect = \<lparr>d_code = code sop, d_name = name sop, d_severity = severity sop,
                       d_root_causes = root_causes sop,
                       d_corrective_actions = corrective_actions sop\<rparr>,
             rationale = (case resp of None \<Rightarrow> [] | Some r \<Rightarrow> r)\<rparr>) 200)"
  using st vm llm unfolding handleAnalyze_def b m sop
  by (simp add: d i f Let_def snd_io_bind llmRationale_returns)

lemma handleAnalyze_rationale_raises:
  assumes b: "body request = Some b"
    and d: "stringOf (Number_toString rt) (nullishOr (description b) []) = Inr d"
    and i: "stringOf (Number_toString rt) (nullishOr (image_base64 b) []) = Inr img"
    and f: "sanitizeFileName (Number_toString rt) (Some (nullishOr (filename b) [])) = Inr fn"
    and vm: "snd (vectorizeMatch env d) = Inr vm"
    and m: "m = (case vm of None \<Rightarrow> keywordFallback d | Some c \<Rightarrow> c)"
    and llm: "run_llm (AI env) d m = Inl e"
  shows "snd (handleAnalyze rt env request) = Inl e"
proof -
  obtain key where "snd (storeImage rt env img fn) = Inr key"
    using storeImage_returns by blast
  then show ?thesis
    using vm llm unfolding handleAnalyze_def b m
    by (simp add: d i f Let_def snd_io_bind llmRationale_raises)
qed

lemma handleAnalyze_match_raises:
  assumes b: "body request = Some b"
    and d: "stringOf (Number_toString rt) (nullishOr (description b) []) = Inr d"
    and i: "stringOf (Number_toString rt) (nullishOr (image_base64 b) []) = Inr img"
    and f: "sanitizeFileName (Number_toString rt) (Some (nullishOr (filename b) [])) = Inr fn"
    and vm: "snd (vectorizeMatch env d) = Inl e"
  shows "snd (handleAnalyze rt env request) = Inl e"
proof -
  obtain key where "snd (storeImage rt env img fn) = Inr key"
    using storeImage_returns by blast
  then show ?thesis
    using vm unfolding handleAnalyze_def b
    by (simp add: d i f Let_def snd_io_bind)
qed

lemma handleAnalyze_field_raises:
  assumes b: "body request = Some b"
    and bad: "stringOf (Number_toString rt) (nullishOr (description b) []) = Inl e
      \<or> (\<exists>d. stringOf (Number_toString rt) (nullishOr (description b) []) = Inr d
            \<and> stringOf (Number_toString rt) (nullishOr (image_base64 b) []) = Inl e)
      \<or> (\<exists>d img. stringOf (Number_toString rt) (nullishOr (description b) []) = Inr d
            \<and> stringOf (Number_toString rt) (nullishOr (image_base64 b) []) = Inr img
            \<and> sanitizeFileName (Number_toString rt) (Some (nullishOr (filename b) [])) = Inl e)"
  shows "handleAnalyze rt env request = ([], Inl e)"
  using bad unfolding handleAnalyze_def b by auto

lemma handleAnalyze_result_shape:
  assumes b: "body request = Some b"
    and res: "snd (handleAnalyze rt env request) = Inr resp"
  shows "\<exists>d img fn key vm r.
       stringOf (Number_toString rt) (nullishOr (description b) []) = Inr d
     \<and> stringOf (Number_toString rt) (nullishOr (image_base64 b) []) = Inr img
     \<and> sanitizeFileName (Number_toString rt) (Some (nullishOr (filename b) [])) = Inr fn
     \<and> snd (storeImage rt env img fn) = Inr key
     \<and> snd (vectorizeMatch env d) = Inr vm
     \<and> resp = json (AnalysisBody
          \<lparr>image_key = key,
           best_match = (case vm of None \<Rightarrow> keywordFallback d | Some m \<Rightarrow> m),
           defect =
             (let sop = (case findSop (mc_code (case vm of None \<Rightarrow> keywordFallback d | Some m \<Rightarrow> m))
                         of None \<Rightarrow> KB ! 0 | Some e \<Rightarrow> e)
              in \<lparr>d_code = code sop, d_name = name sop, d_severity = severity sop,
                  d_root_causes = root_causes sop,
                  d_corrective_actions = corrective_actions sop\<rparr>),
           rationale = r\<rparr>) 200"
proof -
  obtain d where d: "stringOf (Number_toString rt) (nullishOr (description b) []) = Inr d"
    using res unfolding handleAnalyze_def b
    by (cases "stringOf (Number_toString rt) (nullishOr (description b) [])") simp_all
  obtain img where i: "stringOf (Number_toString rt) (nullishOr (image_base64 b) []) = Inr img"
    using res unfolding handleAnalyze_def b
    by (cases "stringOf (Number_toString rt) (nullishOr (image_base64 b) [])") (simp_all add: d)
  obtain fn where f: "sanitizeFileName (Number_toString rt) (Some (nullishOr (filename b) [])) = Inr fn"
    using res unfolding handleAnalyze_def b
    by (cases "sanitizeFileName (Number_toString rt) (Some (nullishOr (filename b) []))")
       (simp_all add: d i)
  show ?thesis
    using res unfolding handleAnalyze_def b
    by (auto simp: d i f Let_def snd_io_bind io_return_def split: sum.splits)
qed

lemma handleAnalyze_plain:
  assumes vm: "snd (vectorizeMatch env d) = Inr vm"
    and llm: "run_llm (AI env) d (case vm of None \<Rightarrow> keywordFallback d | Some c \<Rightarrow> c) = Inr resp"
  shows "snd (handleAnalyze rt env (analyzeRequest (Some d) None)) =
     Inr (json (AnalysisBody
       \<lparr>image_key = None,
        best_match = (case vm of None \<Rightarrow> keywordFallback d | Some c \<Rightarrow> c),
        defect =
          \<lparr>d_code = code (case findSop (mc_code (case vm of None \<Rightarrow> keywordFallback d | Some c \<Rightarrow> c))
                          of None \<Rightarrow> KB ! 0 | Some e \<Rightarrow> e),
           d_name = name (case findSop (mc_code (case vm of None \<Rightarrow> keywordFallback d | Some c \<Rightarrow> c))
                          of None \<Rightarrow> KB ! 0 | Some e \<Rightarrow> e),
           d_severity = severity (case findSop (mc_code (case vm of None \<Rightarrow> keywordFallback d | Some c \<Rightarrow> c))
                          of None \<Rightarrow> KB ! 0 | Some e \<Rightarrow> e),
           d_root_causes = root_causes (case findSop (mc_code (case vm of None \<Rightarrow> keywordFallback d | Some c \<Rightarrow> c))
                          of None \<Rightarrow> KB ! 0 | Some e \<Rightarrow> e),
           d_corrective_actions = corrective_actions (case findSop (mc_code (case vm of None \<Rightarrow> keywordFallback d | Some c \<Rightarrow> c))
                          of None \<Rightarrow> KB ! 0 | Some e \<Rightarrow> e)\<rparr>,
        rationale = (case resp of None \<Rightarrow> [] | Some r \<Rightarrow> r)\<rparr>) 200)"
  by (rule handleAnalyze_returns [OF _ _ _ _ _ vm refl refl llm, where img = "[]" and fn = "[]"])
     (simp add: analyzeRequest_def, simp, simp, simp, simp add: storeImage_no_image)

lemma handleAnalyze_calls_a_binding:
  assumes b: "body request = Some b"
    and d: "stringOf (Number_toString rt) (nullishOr (description b) []) = Inr d"
    and i: "stringOf (Number_toString rt) (nullishOr (image_base64 b) []) = Inr img"
    and f: "sanitizeFileName (Number_toString rt) (Some (nullishOr (filename b) [])) = Inr fn"
  shows "fst (handleAnalyze rt env request) \<noteq> []"
proof -
  obtain key where st: "snd (storeImage rt env img fn) = Inr key"
    using storeImage_returns by blast
  show ?thesis
  proof (cases "VECTORIZE_INDEX env")
    case None
    then show ?thesis
      using st fst_llmRationale unfolding handleAnalyze_def b
      by (simp add: d i f Let_def fst_io_bind vectorizeMatch_no_index split: sum.splits)
  next
    case (Some idx)
    from fst_vectorizeMatch [OF this] show ?thesis
      using st unfolding handleAnalyze_def b
      by (simp add: d i f Let_def fst_io_bind split: sum.splits)
  qed
qed

lemma chat_analysis_calls_a_binding:
  "fst (handleAnalyze rt env
         \<lparr>http_method = js ''POST'', pathname = js ''/api/analyze'',
          body = Some \<lparr>description = Some (JStr msg), image_base64 = None,
                        filename = None, message = None, contentType = None,
                        data = None\<rparr>\<rparr>) \<noteq> []"
  by (rule handleAnalyze_calls_a_binding
        [where b = "\<lparr>description = Some (JStr msg), image_base64 = None,
                        filename = None, message = None, contentType = None,
                        data = None\<rparr>" and d = msg and img = "[]" and fn = "[]"])
     simp_all

lemma route_analyze:
  "http_method request = js ''POST'' \<Longrightarrow> pathname request = js ''/api/analyze'' \<Longrightarrow>
     fetch rt env request =
       io_catch (handleAnalyze rt env request)
         (\<lambda>err. io_return (json (Failure (message_of err)) 500))"
  by (simp add: fetch_def route_def js_eq_iff)

lemma fetch_analyze_raises:
  "http_method request = js ''POST'' \<Longrightarrow> pathname request = js ''/api/analyze'' \<Longrightarrow>
     snd (handleAnalyze rt env request) = Inl e \<Longrightarrow>
     snd (fetch rt env request) = Inr (json (Failure (message_of e)) 500)"
  by (simp add: route_analyze snd_io_catch)

text \<open>
  A field that is an object with a \<^verbatim>\<open>toString\<close> key of its own: the conversion raises
  before any call is made, and the router answers 500.
\<close>

lemma fetch_object_field:
  "fetch rt env (rawAnalyzeRequest (Some (JObj [(js ''toString'', v)])) img f)
     = ([], Inr (json (Failure (js ''toString is not a function'')) 500))"
  "stringOf (Number_toString rt) (nullishOr d []) = Inr x \<Longrightarrow>
   fetch rt env (rawAnalyzeRequest d (Some (JObj [(js ''toString'', v)])) f)
     = ([], Inr (json (Failure (js ''toString is not a function'')) 500))"
  "stringOf (Number_toString rt) (nullishOr d []) = Inr x \<Longrightarrow>
   stringOf (Number_toString rt) (nullishOr img []) = Inr y \<Longrightarrow>
   fetch rt env (rawAnalyzeRequest d img (Some (JObj [(js ''toString'', v)])))
     = ([], Inr (json (Failure (js ''toString is not a function'')) 500))"
  by (simp_all add: route_analyze rawAnalyzeRequest_def handleAnalyze_def sanitizeFileName_def
        falsyOr_def io_return_def)

lemma rationale_fails_example:
  "snd (handleAnalyze rt envRationaleFails (analyzeRequest d None))
     = Inl (Thrown (js ''model overloaded''))"
proof -
  let ?d = "case d of None \<Rightarrow> [] | Some x \<Rightarrow> x"
  have vm: "snd (vectorizeMatch envRationaleFails ?d) = Inr None"
    by (simp add: vectorizeMatch_no_index envRationaleFails_def)
  have llm: "run_llm (AI envRationaleFails) ?d (keywordFallback ?d)
       = Inl (Thrown (js ''model overloaded''))"
    by (simp add: envRationaleFails_def exampleAi_def)
  show ?thesis
    by (rule handleAnalyze_rationale_raises
          [OF analyzeRequest_body _ _ _ vm _ llm, where img = "[]" and fn = "[]"])
       (simp_all split: option.splits)
qed

section \<open>Resolving a code in the catalog\<close>





section \<open>The claims\<close>

subsection \<open>C1: an error of the embedding call or of the index query\<close>

text \<open>
  C1, as the code has it. \<^verbatim>\<open>vectorizeMatch\<close> and \<^verbatim>\<open>handleAnalyze\<close> have no handler around
  the embedding call and the index query. When an index is configured, the fields of the
  body convert to strings, and the embedding call raises, or it returns a vector and the
  query raises, \<^verbatim>\<open>handleAnalyze\<close> raises that error: there is no fallback match, no
  rationale is requested, and the \<^verbatim>\<open>catch\<close> of the router answers 500 with
  \<^verbatim>\<open>{ok:false, error}\<close> carrying the message.
\<close>

theorem C1_amended_error_propagates:
  assumes idx: "VECTORIZE_INDEX env = Some idx"
    and b: "body request = Some b"
    and d: "stringOf (Number_toString rt) (nullishOr (description b) []) = Inr d"
    and i: "stringOf (Number_toString rt) (nullishOr (image_base64 b) []) = Inr img"
    and f: "sanitizeFileName (Number_toString rt) (Some (nullishOr (filename b) [])) = Inr fn"
    and fails: "run_embedding (AI env) [d] = Inl e
       \<or> (\<exists>v vs. run_embedding (AI env) [d] = Inr (Some (v # vs)) \<and> query idx v = Inl e)"
  shows "snd (handleAnalyze rt env request) = Inl e
     \<and> (\<forall>x m. AiLlm x m \<notin> set (fst (handleAnalyze rt env request)))
     \<and> (http_method request = js ''POST'' \<and> pathname request = js ''/api/analyze'' \<longrightarrow>
          snd (fetch rt env request) = Inr (json (Failure (message_of e)) 500))"
proof -
  note vm = vectorizeMatch_raises [OF idx fails]
  have r: "snd (handleAnalyze rt env request) = Inl e"
    by (rule handleAnalyze_match_raises [OF b d i f vm(1)])
  obtain key where st: "snd (storeImage rt env img fn) = Inr key"
    using storeImage_returns by blast
  have calls: "fst (handleAnalyze rt env request)
      = fst (storeImage rt env img fn) @ fst (vectorizeMatch env d)"
    using st vm(1) unfolding handleAnalyze_def b
    by (simp add: d i f Let_def fst_io_bind snd_io_bind)
  have "\<forall>x m. AiLlm x m \<notin> set (fst (handleAnalyze rt env request))"
    unfolding calls using vm(2) storeImage_calls by fastforce
  with r show ?thesis
    by (simp add: fetch_analyze_raises)
qed

text \<open>The claim as stated fails: the embedding call raises and the request is answered 500.\<close>

theorem C1_counterexample:
  "VECTORIZE_INDEX envEmbeddingFails \<noteq> None
   \<and> snd (handleAnalyze exampleRuntime envEmbeddingFails
            (analyzeRequest (Some (js ''orange peel defect'')) None))
       = Inl (Thrown (js ''embedding service unavailable''))
   \<and> snd (fetch exampleRuntime envEmbeddingFails
            (analyzeRequest (Some (js ''orange peel defect'')) None))
       = Inr (json (Failure (js ''embedding service unavailable'')) 500)"
proof -
  let ?req = "analyzeRequest (Some (js ''orange peel defect'')) None"
  have vm: "snd (vectorizeMatch envEmbeddingFails (js ''orange peel defect''))
      = Inl (Thrown (js ''embedding service unavailable''))"
    by (simp add: vectorizeMatch_def envEmbeddingFails_def embedTexts_def exampleAi_def)
  have r: "snd (handleAnalyze exampleRuntime envEmbeddingFails ?req)
       = Inl (Thrown (js ''embedding service unavailable''))"
    by (rule handleAnalyze_match_raises [OF analyzeRequest_body _ _ _ vm, where img = "[]" and fn = "[]"])
       simp_all
  have "snd (fetch exampleRuntime envEmbeddingFails ?req)
       = Inr (json (Failure (message_of (Thrown (js ''embedding service unavailable'')))) 500)"
    by (rule fetch_analyze_raises [OF analyzeRequest_route r])
  with r show ?thesis by (simp add: envEmbeddingFails_def)
qed

text \<open>An instance of the theorem where the embedding returns and the index query raises.\<close>

theorem C1_witness:
  "VECTORIZE_INDEX envQueryFails \<noteq> None
   \<and> snd (handleAnalyze exampleRuntime envQueryFails
            (analyzeRequest (Some (js ''pinholes after baking'')) None))
       = Inl (Thrown (js ''index query timed out''))
   \<and> snd (fetch exampleRuntime envQueryFails
            (analyzeRequest (Some (js ''pinholes after baking'')) None))
       = Inr (json (Failure (js ''index query timed out'')) 500)"
proof -
  let ?d = "js ''pinholes after baking''"
  let ?req = "analyzeRequest (Some ?d) None"
  let ?b = "\<lparr>description = map_option JStr (Some ?d), image_base64 = map_option JStr None,
           filename = None, message = None, contentType = None, data = None\<rparr>"
  let ?idx = "exampleIndex\<lparr>query := (\<lambda>v. Inl (Thrown (js ''index query timed out'')))\<rparr>"
  have idx: "VECTORIZE_INDEX envQueryFails = Some ?idx"
    by (simp add: envQueryFails_def)
  have d: "stringOf (Number_toString exampleRuntime) (nullishOr (description ?b) []) = Inr ?d"
    by simp
  have i: "stringOf (Number_toString exampleRuntime) (nullishOr (image_base64 ?b) []) = Inr []"
    by simp
  have f: "sanitizeFileName (Number_toString exampleRuntime) (Some (nullishOr (filename ?b) []))
      = Inr []"
    by simp
  have fails: "run_embedding (AI envQueryFails) [?d]
        = Inl (Thrown (js ''index query timed out''))
     \<or> (\<exists>v vs. run_embedding (AI envQueryFails) [?d]
            = Inr (Some (v # vs)) \<and> query ?idx v = Inl (Thrown (js ''index query timed out'')))"
    by (simp add: envQueryFails_def exampleAi_def)
  from C1_amended_error_propagates [OF idx analyzeRequest_body d i f fails] idx show ?thesis
    by (simp add: analyzeRequest_route)
qed

subsection \<open>C2: the score of a catalog entry is the sum of the three rules\<close>

text \<open>
  C2. For every lower-cased description \<open>t\<close> and every entry \<open>e\<close> of the catalog, the
  score the source expression computes is the sum of the orange-peel rule, the
  pinhole/crater rule and the adhesion/tape-test rule. The expression is not a sum as it
  is parsed, but in the catalog only the first entry's text has the orange keyword, no
  text has the pinhole keyword and only the fourth entry has the adhesion code, so no
  entry can earn two contributions and the parse makes no difference.
\<close>

theorem C2_score_is_sum_on_KB: "e \<in> set KB \<Longrightarrow> ruleScore e t = additiveScore e t"
  by (simp only: ruleScore_KB additiveScore_KB)



theorem C2_witness:
  "KB ! 3 \<in> set KB
   \<and> ruleScore (KB ! 3) (toLowerCase (js ''Flaking in the tape test''))
       = additiveScore (KB ! 3) (toLowerCase (js ''Flaking in the tape test''))
   \<and> additiveScore (KB ! 3) (toLowerCase (js ''Flaking in the tape test'')) = 2"
proof -
  have h: "KB ! 3 \<in> set KB" by (simp add: KB_length)
  have t: "includes_str (toLowerCase (js ''Flaking in the tape test'')) (js ''tape test'')"
    by code_simp
  have "additiveScore (KB ! 3) (toLowerCase (js ''Flaking in the tape test'')) = 2"
    by (simp add: additiveScore_KB [OF h] KB_fourth js_eq_iff t)
  with h C2_score_is_sum_on_KB [OF h, of "toLowerCase (js ''Flaking in the tape test'')"]
  show ?thesis by simp
qed

subsection \<open>C3: the rationale\<close>

text \<open>
  C3, as the code has it. When the fields of the body convert to strings and the match
  resolution has returned, a rationale call that returns gives a 200 response whose
  rationale is the response text, or the empty string when there is no response. A
  rationale call that raises makes \<^verbatim>\<open>handleAnalyze\<close> raise that error, and the router
  answers 500 with \<^verbatim>\<open>{ok:false, error}\<close>.
\<close>

theorem C3_amended_rationale:
  assumes b: "body request = Some b"
    and d: "stringOf (Number_toString rt) (nullishOr (description b) []) = Inr d"
    and i: "stringOf (Number_toString rt) (nullishOr (image_base64 b) []) = Inr img"
    and f: "sanitizeFileName (Number_toString rt) (Some (nullishOr (filename b) [])) = Inr fn"
    and vm: "snd (vectorizeMatch env d) = Inr vm"
    and m: "m = (case vm of None \<Rightarrow> keywordFallback d | Some c \<Rightarrow> c)"
  shows "(\<forall>resp. run_llm (AI env) d m = Inr resp \<longrightarrow>
            (\<exists>a. snd (handleAnalyze rt env request) = Inr (json (AnalysisBody a) 200)
                 \<and> best_match a = m
                 \<and> rationale a = (case resp of None \<Rightarrow> [] | Some r \<Rightarrow> r)))
     \<and> (\<forall>e. run_llm (AI env) d m = Inl e \<longrightarrow>
            snd (handleAnalyze rt env request) = Inl e
            \<and> (http_method request = js ''POST'' \<and> pathname request = js ''/api/analyze'' \<longrightarrow>
                 snd (fetch rt env request) = Inr (json (Failure (message_of e)) 500)))"
proof (intro conjI allI impI)
  fix resp
  assume llm: "run_llm (AI env) d m = Inr resp"
  obtain key where st: "snd (storeImage rt env img fn) = Inr key"
    using storeImage_returns by blast
  note r = handleAnalyze_returns [OF b d i f st vm m refl llm]
  show "\<exists>a. snd (handleAnalyze rt env request) = Inr (json (AnalysisBody a) 200)
                 \<and> best_match a = m
                 \<and> rationale a = (case resp of None \<Rightarrow> [] | Some r \<Rightarrow> r)"
    by (rule exI, rule conjI, rule r, simp)
next
  fix e
  assume llm: "run_llm (AI env) d m = Inl e"
  show r: "snd (handleAnalyze rt env request) = Inl e"
    by (rule handleAnalyze_rationale_raises [OF b d i f vm m llm])
  assume "http_method request = js ''POST'' \<and> pathname request = js ''/api/analyze''"
  then show "snd (fetch rt env request) = Inr (json (Failure (message_of e)) 500)"
    using r by (simp add: fetch_analyze_raises)
qed

text \<open>The claim as stated fails: the rationale call raises and the request is answered 500.\<close>

theorem C3_counterexample:
  "snd (handleAnalyze exampleRuntime envRationaleFails
          (analyzeRequest (Some (js ''orange peel defect'')) None))
     = Inl (Thrown (js ''model overloaded''))
   \<and> snd (fetch exampleRuntime envRationaleFails
            (analyzeRequest (Some (js ''orange peel defect'')) None))
       = Inr (json (Failure (js ''model overloaded'')) 500)"
proof -
  note r = rationale_fails_example [of exampleRuntime "Some (js ''orange peel defect'')"]
  from fetch_analyze_raises [OF analyzeRequest_route r] r show ?thesis by simp
qed

text \<open>An instance where the model gives no response: the rationale is the empty string.\<close>

theorem C3_witness:
  "\<exists>a. snd (handleAnalyze exampleRuntime envRationaleSilent
          (analyzeRequest (Some (js ''Tape test failed'')) None))
        = Inr (json (AnalysisBody a) 200)
      \<and> mc_code (best_match a) = js ''CD004-AD''
      \<and> rationale a = []"
proof -
  let ?d = "js ''Tape test failed''"
  let ?b = "\<lparr>description = map_option JStr (Some ?d), image_base64 = map_option JStr None,
           filename = None, message = None, contentType = None, data = None\<rparr>"
  have d: "stringOf (Number_toString exampleRuntime) (nullishOr (description ?b) []) = Inr ?d"
    by simp
  have i: "stringOf (Number_toString exampleRuntime) (nullishOr (image_base64 ?b) []) = Inr []"
    by simp
  have f: "sanitizeFileName (Number_toString exampleRuntime) (Some (nullishOr (filename ?b) []))
      = Inr []"
    by simp
  have vm: "snd (vectorizeMatch envRationaleSilent ?d) = Inr None"
    by (simp add: vectorizeMatch_no_index envRationaleSilent_def)
  have m: "keywordFallback ?d = (case None of None \<Rightarrow> keywordFallback ?d | Some c \<Rightarrow> c)"
    by simp
  have llm: "run_llm (AI envRationaleSilent) ?d (keywordFallback ?d) = Inr None"
    by (simp add: envRationaleSilent_def exampleAi_def)
  have c: "mc_code (keywordFallback ?d) = js ''CD004-AD''"
    by (simp add: keywordFallback_eq tape_test_failed KB_fourth)
  from C3_amended_rationale [OF analyzeRequest_body d i f vm m] llm c show ?thesis
    by auto
qed

subsection \<open>C4: the codes of the response\<close>




subsection \<open>C5: the fallback takes the first entry of highest score\<close>

text \<open>
  C5. For every description the keyword fallback returns the candidate of a catalog
  entry \<open>KB ! i\<close> whose score no entry exceeds, and every entry declared before it has
  a strictly lower score: among entries of equal score the one declared first is taken.
\<close>

theorem C5_fallback_first_highest:
  "\<exists>i<length KB.
     keywordFallback d =
       \<lparr>mc_code = code (KB ! i), mc_name = name (KB ! i), mc_severity = severity (KB ! i),
        mc_score = ruleScore (KB ! i) (toLowerCase d)\<rparr>
     \<and> (\<forall>j<length KB. ruleScore (KB ! j) (toLowerCase d) \<le> ruleScore (KB ! i) (toLowerCase d))
     \<and> (\<forall>j<i. ruleScore (KB ! j) (toLowerCase d) < ruleScore (KB ! i) (toLowerCase d))"
proof -
  let ?t = "toLowerCase d"
  let ?cmp = "\<lambda>(a :: SopEntry \<times> real) (b :: SopEntry \<times> real). snd b - snd a"
  have len: "length (scored ?t) = length KB" by (simp add: scored_def)
  have nth: "\<And>j. j < length KB \<Longrightarrow> scored ?t ! j = (KB ! j, ruleScore (KB ! j) ?t)"
    by (simp add: scored_def)
  have ne: "scored ?t \<noteq> []" using len by (auto simp: KB_length)
  from sortBy_top_first_max [OF ne] obtain i where i: "i < length KB"
    and top: "hd (sortBy ?cmp (scored ?t)) = scored ?t ! i"
    and mx: "\<forall>j<length KB. snd (scored ?t ! j) \<le> snd (scored ?t ! i)"
    and before: "\<forall>j<i. snd (scored ?t ! j) < snd (scored ?t ! i)"
    unfolding len by blast
  obtain s r where sr: "sortBy ?cmp (scored ?t) = s # r"
    using ne by (cases "sortBy ?cmp (scored ?t)") (simp_all add: sortBy_Nil_iff)
  with top i have s: "s = (KB ! i, ruleScore (KB ! i) ?t)" by (simp add: nth)
  have "keywordFallback d =
       \<lparr>mc_code = code (KB ! i), mc_name = name (KB ! i), mc_severity = severity (KB ! i),
        mc_score = ruleScore (KB ! i) ?t\<rparr>"
    by (simp add: keywordFallback_def Let_def sr s)
  moreover have "\<forall>j<length KB. ruleScore (KB ! j) ?t \<le> ruleScore (KB ! i) ?t"
    using mx i by (simp add: nth)
  moreover have "\<forall>j<i. ruleScore (KB ! j) ?t < ruleScore (KB ! i) ?t"
    using before i by (simp add: nth)
  ultimately show ?thesis using i by blast
qed

text \<open>
  An instance with a tie: the description earns 2 for the first entry (orange peel) and 2
  for the fourth (adhesion), and the first entry is returned.
\<close>

theorem C5_witness:
  "ruleScore (KB ! 0) (toLowerCase (js ''Orange peel and poor adhesion'')) = 2
   \<and> ruleScore (KB ! 3) (toLowerCase (js ''Orange peel and poor adhesion'')) = 2
   \<and> mc_code (keywordFallback (js ''Orange peel and poor adhesion'')) = js ''CD001-OP''"
proof -
  let ?t = "toLowerCase (js ''Orange peel and poor adhesion'')"
  have op: "includes_str ?t (js ''orange peel'')" by code_simp
  have ad: "includes_str ?t (js ''adhesion'')" by code_simp
  have m0: "KB ! 0 \<in> set KB" and m3: "KB ! 3 \<in> set KB" by (simp_all add: KB_length)
  have s0: "ruleScore (KB ! 0) ?t = 2"
    by (simp add: ruleScore_KB [OF m0] KB_first op)
  have s3: "ruleScore (KB ! 3) ?t = 2"
    by (simp add: ruleScore_KB [OF m3] KB_fourth ad js_eq_iff)
  from C5_fallback_first_highest [of "js ''Orange peel and poor adhesion''"]
  obtain i where i: "i < length KB"
    and res: "keywordFallback (js ''Orange peel and poor adhesion'') =
       \<lparr>mc_code = code (KB ! i), mc_name = name (KB ! i), mc_severity = severity (KB ! i),
        mc_score = ruleScore (KB ! i) ?t\<rparr>"
    and before: "\<forall>j<i. ruleScore (KB ! j) ?t < ruleScore (KB ! i) ?t"
    by blast
  have "i = 0"
  proof (rule ccontr)
    assume "i \<noteq> 0"
    with before have "ruleScore (KB ! 0) ?t < ruleScore (KB ! i) ?t" by simp
    moreover have "ruleScore (KB ! i) ?t \<le> 2"
      using i by (intro ruleScore_KB_le) simp
    ultimately show False using s0 by simp
  qed
  with res have "mc_code (keywordFallback (js ''Orange peel and poor adhesion'')) = js ''CD001-OP''"
    by (simp add: KB_first)
  with s0 s3 show ?thesis by simp
qed

subsection \<open>C6: the description "orange peel defect" without an index\<close>

text \<open>
  C6, as the code has it. With no index configured the lookup makes no call and gives no
  match. For the description \<^verbatim>\<open>orange peel defect\<close>, when the image and filename
  fields convert to strings and the rationale call returns, the response is a 200
  analysis whose \<open>best_match\<close> is the fallback candidate, with code \<^verbatim>\<open>CD001-OP\<close> and
  score 2.
\<close>

theorem C6_amended_orange_peel_defect:
  assumes noidx: "VECTORIZE_INDEX env = None"
    and b: "body request = Some b"
    and dd: "description b = Some (JStr (js ''orange peel defect''))"
    and i: "stringOf (Number_toString rt) (nullishOr (image_base64 b) []) = Inr img"
    and f: "sanitizeFileName (Number_toString rt) (Some (nullishOr (filename b) [])) = Inr fn"
    and llm: "run_llm (AI env) (js ''orange peel defect'')
                (keywordFallback (js ''orange peel defect'')) = Inr resp"
  shows "vectorizeMatch env (js ''orange peel defect'') = ([], Inr None)
     \<and> (\<exists>a. snd (handleAnalyze rt env request) = Inr (json (AnalysisBody a) 200)
            \<and> best_match a = keywordFallback (js ''orange peel defect'')
            \<and> mc_code (best_match a) = js ''CD001-OP''
            \<and> mc_score (best_match a) = 2
            \<and> d_code (defect a) = js ''CD001-OP'')"
proof -
  let ?d = "js ''orange peel defect''"
  have vm: "vectorizeMatch env ?d = ([], Inr None)"
    by (rule vectorizeMatch_no_index [OF noidx])
  have d: "stringOf (Number_toString rt) (nullishOr (description b) []) = Inr ?d"
    by (simp add: dd)
  obtain key where st: "snd (storeImage rt env img fn) = Inr key"
    using storeImage_returns by blast
  have "snd (handleAnalyze rt env request) =
     Inr (json (AnalysisBody
            \<lparr>image_key = key, best_match = keywordFallback ?d,
             defect = \<lparr>d_code = code (KB ! 0), d_name = name (KB ! 0),
                       d_severity = severity (KB ! 0), d_root_causes = root_causes (KB ! 0),
                       d_corrective_actions = corrective_actions (KB ! 0)\<rparr>,
             rationale = (case resp of None \<Rightarrow> [] | Some r \<Rightarrow> r)\<rparr>) 200)"
    by (rule handleAnalyze_returns [OF b d i f st _ _ _ llm, where vm = None])
       (simp_all add: vm keywordFallback_orange_peel_defect findSop_KB)
  then show ?thesis
    using vm
    by (intro conjI exI [of _ "\<lparr>image_key = key, best_match = keywordFallback ?d,
             defect = \<lparr>d_code = code (KB ! 0), d_name = name (KB ! 0),
                       d_severity = severity (KB ! 0), d_root_causes = root_causes (KB ! 0),
                       d_corrective_actions = corrective_actions (KB ! 0)\<rparr>,
             rationale = (case resp of None \<Rightarrow> [] | Some r \<Rightarrow> r)\<rparr>"])
       (simp_all add: keywordFallback_orange_peel_defect KB_first)
qed

text \<open>
  The claim as stated fails in two ways: with a rationale call that raises, and with an
  image or a filename that is an object with a \<^verbatim>\<open>toString\<close> key. The requests are
  answered 500 and carry no best match.
\<close>

theorem C6_counterexample:
  "VECTORIZE_INDEX envRationaleFails = None
   \<and> snd (fetch exampleRuntime envRationaleFails
            (analyzeRequest (Some (js ''orange peel defect'')) None))
       = Inr (json (Failure (js ''model overloaded'')) 500)
   \<and> VECTORIZE_INDEX envNoIndex = None
   \<and> fetch exampleRuntime envNoIndex
        (rawAnalyzeRequest (Some (JStr (js ''orange peel defect'')))
           (Some (JObj [(js ''toString'', JNum 1)])) None)
       = ([], Inr (json (Failure (js ''toString is not a function'')) 500))
   \<and> fetch exampleRuntime envNoIndex
        (rawAnalyzeRequest (Some (JStr (js ''orange peel defect''))) None
           (Some (JObj [(js ''toString'', JNum 1)])))
       = ([], Inr (json (Failure (js ''toString is not a function'')) 500))"
proof -
  note r = rationale_fails_example [of exampleRuntime "Some (js ''orange peel defect'')"]
  from fetch_analyze_raises [OF analyzeRequest_route r] show ?thesis
    by (simp add: fetch_object_field envRationaleFails_def envNoIndex_def)
qed

text \<open>An instance of the theorem with working bindings.\<close>

theorem C6_witness:
  "VECTORIZE_INDEX envNoIndex = None
   \<and> (\<exists>a. snd (handleAnalyze exampleRuntime envNoIndex
                 (analyzeRequest (Some (js ''orange peel defect'')) None))
              = Inr (json (AnalysisBody a) 200)
          \<and> mc_code (best_match a) = js ''CD001-OP''
          \<and> rationale a = js ''Check viscosity and film thickness first.'')"
proof -
  let ?d = "js ''orange peel defect''"
  let ?b = "\<lparr>description = map_option JStr (Some ?d), image_base64 = map_option JStr None,
           filename = None, message = None, contentType = None, data = None\<rparr>"
  have h: "VECTORIZE_INDEX envNoIndex = None" by (simp add: envNoIndex_def)
  have dd: "description ?b = Some (JStr ?d)" by simp
  have i: "stringOf (Number_toString exampleRuntime) (nullishOr (image_base64 ?b) []) = Inr []"
    by simp
  have f: "sanitizeFileName (Number_toString exampleRuntime) (Some (nullishOr (filename ?b) []))
      = Inr []"
    by simp
  have vm: "snd (vectorizeMatch envNoIndex ?d) = Inr None"
    by (simp add: vectorizeMatch_no_index [OF h])
  have llm: "run_llm (AI envNoIndex) ?d (keywordFallback ?d)
       = Inr (Some (js ''Check viscosity and film thickness first.''))"
    by (simp add: envNoIndex_def exampleAi_def)
  have llm': "run_llm (AI envNoIndex) ?d (case None of None \<Rightarrow> keywordFallback ?d | Some c \<Rightarrow> c)
       = Inr (Some (js ''Check viscosity and film thickness first.''))"
    using llm by simp
  note r = handleAnalyze_plain [OF vm llm', of exampleRuntime]
  from C6_amended_orange_peel_defect [OF h analyzeRequest_body dd i f llm] r h show ?thesis
    by (auto simp: json_def)
qed

subsection \<open>C7: an image that is not base64\<close>

text \<open>
  C7, as the code has it. When the \<^verbatim>\<open>image_base64\<close> field converts to a string that
  does not decode, \<^verbatim>\<open>handleAnalyze\<close> makes the same calls and gives the same result as
  for the same request without the image; every response it gives is a 200 analysis with
  \<open>image_key = None\<close>; and it gives one whenever the description and filename fields
  convert to strings and the match resolution and the rationale call return.
\<close>

theorem C7_amended_undecodable_image:
  assumes b: "body request = Some b"
    and i: "stringOf (Number_toString rt) (nullishOr (image_base64 b) []) = Inr img"
    and bad: "decodeBase64ToBytes (stripDataUrlPrefix img) = Inl e"
  shows "handleAnalyze rt env request
           = handleAnalyze rt env (request\<lparr>body := Some (b\<lparr>image_base64 := None\<rparr>)\<rparr>)
     \<and> (\<forall>resp. snd (handleAnalyze rt env request) = Inr resp \<longrightarrow>
            (\<exists>a. resp = json (AnalysisBody a) 200 \<and> image_key a = None))
     \<and> (\<forall>d fn vm resp.
            stringOf (Number_toString rt) (nullishOr (description b) []) = Inr d
            \<and> sanitizeFileName (Number_toString rt) (Some (nullishOr (filename b) [])) = Inr fn
            \<and> snd (vectorizeMatch env d) = Inr vm
            \<and> run_llm (AI env) d (case vm of None \<Rightarrow> keywordFallback d | Some c \<Rightarrow> c) = Inr resp
            \<longrightarrow> (\<exists>a. snd (handleAnalyze rt env request) = Inr (json (AnalysisBody a) 200)
                      \<and> image_key a = None))"
proof (intro conjI allI impI)
  have st: "\<And>fn. storeImage rt env img fn = ([], Inr None)"
    by (rule storeImage_decode_fails [OF bad])
  show "handleAnalyze rt env request
           = handleAnalyze rt env (request\<lparr>body := Some (b\<lparr>image_base64 := None\<rparr>)\<rparr>)"
    by (cases "stringOf (Number_toString rt) (nullishOr (description b) [])";
        cases "sanitizeFileName (Number_toString rt) (Some (nullishOr (filename b) []))")
       (simp_all add: handleAnalyze_def b i st storeImage_no_image)
  {
    fix resp
    assume res: "snd (handleAnalyze rt env request) = Inr resp"
    from handleAnalyze_result_shape [OF b res] obtain fn key a where
      k: "snd (storeImage rt env img fn) = Inr key"
      and r: "resp = json (AnalysisBody a) 200" and ik: "image_key a = key"
      using i by auto
    from k st have "key = None" by simp
    with r ik show "\<exists>a. resp = json (AnalysisBody a) 200 \<and> image_key a = None"
      by blast
  }
  {
    fix d fn vm resp
    assume a: "stringOf (Number_toString rt) (nullishOr (description b) []) = Inr d
            \<and> sanitizeFileName (Number_toString rt) (Some (nullishOr (filename b) [])) = Inr fn
            \<and> snd (vectorizeMatch env d) = Inr vm
            \<and> run_llm (AI env) d (case vm of None \<Rightarrow> keywordFallback d | Some c \<Rightarrow> c) = Inr resp"
    have s: "snd (storeImage rt env img fn) = Inr None"
      by (simp add: st)
    note r = handleAnalyze_returns [OF b _ i _ s _ refl refl, of d vm resp]
    from a show "\<exists>a. snd (handleAnalyze rt env request) = Inr (json (AnalysisBody a) 200)
                      \<and> image_key a = None"
      by (intro exI conjI) (rule r, simp_all)
  }
qed

text \<open>
  The claim as stated fails in two ways: an image field that is an object with a
  \<^verbatim>\<open>toString\<close> key raises outside the \<^verbatim>\<open>try\<close>, and an image string that does not
  decode does not keep a raising rationale call, or a filename that does not convert,
  from failing the request. All are answered 500.
\<close>

theorem C7_counterexample:
  "fetch exampleRuntime envNoIndex
     (rawAnalyzeRequest (Some (JStr (js ''orange peel defect'')))
        (Some (JObj [(js ''toString'', JNum 1)])) None)
     = ([], Inr (json (Failure (js ''toString is not a function'')) 500))
   \<and> decodeBase64ToBytes (stripDataUrlPrefix (js ''data:image/jpeg;base64,@@not-base64@@''))
       = Inl (Thrown (js ''InvalidCharacterError''))
   \<and> snd (fetch exampleRuntime envRationaleFails
            (analyzeRequest (Some (js ''orange peel defect''))
               (Some (js ''data:image/jpeg;base64,@@not-base64@@''))))
       = Inr (json (Failure (js ''model overloaded'')) 500)
   \<and> fetch exampleRuntime envNoIndex
        (rawAnalyzeRequest (Some (JStr (js ''orange peel defect'')))
           (Some (JStr (js ''data:image/jpeg;base64,@@not-base64@@'')))
           (Some (JObj [(js ''toString'', JNum 1)])))
       = ([], Inr (json (Failure (js ''toString is not a function'')) 500))"
proof -
  let ?d = "js ''orange peel defect''"
  let ?img = "js ''data:image/jpeg;base64,@@not-base64@@''"
  have vm: "snd (vectorizeMatch envRationaleFails ?d) = Inr None"
    by (simp add: vectorizeMatch_no_index envRationaleFails_def)
  have llm: "run_llm (AI envRationaleFails) ?d (keywordFallback ?d)
       = Inl (Thrown (js ''model overloaded''))"
    by (simp add: envRationaleFails_def exampleAi_def)
  have r: "snd (handleAnalyze exampleRuntime envRationaleFails (analyzeRequest (Some ?d) (Some ?img)))
       = Inl (Thrown (js ''model overloaded''))"
    by (rule handleAnalyze_rationale_raises
          [OF analyzeRequest_body _ _ _ vm _ llm, where img = ?img and fn = "[]"])
       simp_all
  from fetch_analyze_raises [OF analyzeRequest_route r] undecodable_image
  show ?thesis by (simp add: fetch_object_field)
qed

text \<open>An instance of the theorem with working bindings and a bucket.\<close>

theorem C7_witness:
  "decodeBase64ToBytes (stripDataUrlPrefix (js ''data:image/jpeg;base64,@@not-base64@@''))
     = Inl (Thrown (js ''InvalidCharacterError''))
   \<and> handleAnalyze exampleRuntime envNoIndex
        (analyzeRequest (Some (js ''orange peel defect''))
           (Some (js ''data:image/jpeg;base64,@@not-base64@@'')))
      = handleAnalyze exampleRuntime envNoIndex
          (analyzeRequest (Some (js ''orange peel defect'')) None)
   \<and> (\<exists>a. snd (handleAnalyze exampleRuntime envNoIndex
                 (analyzeRequest (Some (js ''orange peel defect''))
                    (Some (js ''data:image/jpeg;base64,@@not-base64@@''))))
              = Inr (json (AnalysisBody a) 200)
          \<and> image_key a = None)"
proof -
  let ?img = "js ''data:image/jpeg;base64,@@not-base64@@''"
  let ?d = "js ''orange peel defect''"
  let ?b = "\<lparr>description = map_option JStr (Some ?d), image_base64 = map_option JStr (Some ?img),
           filename = None, message = None, contentType = None, data = None\<rparr>"
  have i: "stringOf (Number_toString exampleRuntime) (nullishOr (image_base64 ?b) []) = Inr ?img"
    by simp
  have d: "stringOf (Number_toString exampleRuntime) (nullishOr (description ?b) []) = Inr ?d"
    by simp
  have f: "sanitizeFileName (Number_toString exampleRuntime) (Some (nullishOr (filename ?b) []))
      = Inr []"
    by simp
  have vm: "snd (vectorizeMatch envNoIndex ?d) = Inr None"
    by (simp add: vectorizeMatch_no_index envNoIndex_def)
  have llm: "run_llm (AI envNoIndex) ?d (case None of None \<Rightarrow> keywordFallback ?d | Some c \<Rightarrow> c)
       = Inr (Some (js ''Check viscosity and film thickness first.''))"
    by (simp add: envNoIndex_def exampleAi_def)
  have upd: "(analyzeRequest (Some ?d) (Some ?img))\<lparr>body := Some (?b\<lparr>image_base64 := None\<rparr>)\<rparr>
       = analyzeRequest (Some ?d) None"
    by (simp add: analyzeRequest_def)
  note c7 = C7_amended_undecodable_image
     [OF analyzeRequest_body i undecodable_image, of envNoIndex, unfolded upd]
  have eq: "handleAnalyze exampleRuntime envNoIndex (analyzeRequest (Some ?d) (Some ?img))
      = handleAnalyze exampleRuntime envNoIndex (analyzeRequest (Some ?d) None)"
    using c7 by simp
  have ex: "\<exists>a. snd (handleAnalyze exampleRuntime envNoIndex
                 (analyzeRequest (Some ?d) (Some ?img))) = Inr (json (AnalysisBody a) 200)
          \<and> image_key a = None"
    by (rule c7 [THEN conjunct2, THEN conjunct2, rule_format, of ?d "[]" None,
                 OF conjI [OF d conjI [OF f conjI [OF vm llm]]]])
  from undecodable_image eq ex show ?thesis by (intro conjI)
qed

subsection \<open>C8: a chat message shorter than three characters\<close>

text \<open>
  C8. When the message converts to a string whose trimmed form has fewer than 3 code
  units, \<^verbatim>\<open>handleChat\<close> returns the clarifying prompt with status 200 and makes no call
  to any binding. A message that is absent or a string always converts. The run of
  \<^verbatim>\<open>handleAnalyze\<close> that \<^verbatim>\<open>handleChat\<close> starts for a longer message always makes a
  call (\<open>chat_analysis_calls_a_binding\<close>), so the analysis was not run.
\<close>

theorem C8_short_message_prompt:
  assumes "body request = Some b"
    and "stringOf (Number_toString rt) (nullishOr (message b) []) = Inr m"
    and "length (trim m) < 3"
  shows "handleChat rt env request =
     ([], Inr (json (ReplyBody (js ''Please describe the defect in more detail '' @ [0x2013]
                         @ js '' substrate, coating type, drying, line speed, etc.'')) 200))"
  using assms by (simp add: handleChat_def Let_def io_return_def)

theorem C8_witness:
  "length (trim (js ''  ab '')) = 2
   \<and> handleChat exampleRuntime envNoIndex (chatRequest (js ''  ab '')) =
     ([], Inr (json (ReplyBody (js ''Please describe the defect in more detail '' @ [0x2013]
                         @ js '' substrate, coating type, drying, line speed, etc.'')) 200))"
proof -
  let ?b = "\<lparr>description = None, image_base64 = None, filename = None,
            message = Some (JStr (js ''  ab '')), contentType = None, data = None\<rparr>"
  have len: "length (trim (js ''  ab '')) = 2" by code_simp
  have b: "body (chatRequest (js ''  ab '')) = Some ?b"
    by (simp add: chatRequest_def)
  have m: "stringOf (Number_toString exampleRuntime) (nullishOr (message ?b) []) = Inr (js ''  ab '')"
    by simp
  from C8_short_message_prompt [OF b m, of envNoIndex] len show ?thesis by simp
qed

subsection \<open>C9: seeding without an index\<close>

text \<open>
  C9. When no index is configured, \<^verbatim>\<open>handleSeed\<close> makes no call and returns status 500
  with \<^verbatim>\<open>{ok:false, error:"VECTORIZE_INDEX binding missing"}\<close>, and so does the router
  for \<^verbatim>\<open>POST /api/seed\<close>.
\<close>

theorem C9_seed_without_index:
  assumes "VECTORIZE_INDEX env = None"
  shows "handleSeed env = ([], Inr (json (Failure (js ''VECTORIZE_INDEX binding missing'')) 500))
    \<and> status (json (Failure (js ''VECTORIZE_INDEX binding missing'')) 500) = 500
    \<and> (http_method request = js ''POST'' \<and> pathname request = js ''/api/seed'' \<longrightarrow>
         fetch rt env request
           = ([], Inr (json (Failure (js ''VECTORIZE_INDEX binding missing'')) 500)))"
  using assms
  by (simp add: handleSeed_def fetch_def route_def json_def io_return_def js_eq_iff)

theorem C9_witness:
  "VECTORIZE_INDEX envNoIndex = None
   \<and> fetch exampleRuntime envNoIndex seedRequest
       = ([], Inr (json (Failure (js ''VECTORIZE_INDEX binding missing'')) 500))"
proof -
  have h: "VECTORIZE_INDEX envNoIndex = None" by (simp add: envNoIndex_def)
  from C9_seed_without_index [OF h, of seedRequest exampleRuntime] h show ?thesis
    by (simp add: seedRequest_def)
qed

subsection \<open>C10: a missing or empty description without an index\<close>

text \<open>
  C10, as the code has it. When the description is missing, \<^verbatim>\<open>null\<close> or the empty
  string and no index is configured, every catalog entry scores 0. When also the image
  and filename fields convert to strings and the rationale call returns, the response is
  a 200 analysis whose \<open>best_match\<close> is the first entry, code \<^verbatim>\<open>CD001-OP\<close>, with
  score 0.
\<close>

theorem C10_amended_empty_description:
  assumes noidx: "VECTORIZE_INDEX env = None"
    and b: "body request = Some b"
    and dd: "description b = None \<or> description b = Some JNull \<or> description b = Some (JStr [])"
    and i: "stringOf (Number_toString rt) (nullishOr (image_base64 b) []) = Inr img"
    and f: "sanitizeFileName (Number_toString rt) (Some (nullishOr (filename b) [])) = Inr fn"
    and llm: "run_llm (AI env) [] (keywordFallback []) = Inr resp"
  shows "(\<forall>e\<in>set KB. ruleScore e (toLowerCase []) = 0)
     \<and> (\<exists>a. snd (handleAnalyze rt env request) = Inr (json (AnalysisBody a) 200)
            \<and> best_match a =
                 \<lparr>mc_code = js ''CD001-OP'', mc_name = name (KB ! 0),
                  mc_severity = js ''Medium'', mc_score = 0\<rparr>
            \<and> d_code (defect a) = code (KB ! 0)
            \<and> d_root_causes (defect a) = root_causes (KB ! 0))"
proof -
  have d: "stringOf (Number_toString rt) (nullishOr (description b) []) = Inr []"
    using dd by auto
  have vm: "vectorizeMatch env [] = ([], Inr None)"
    by (rule vectorizeMatch_no_index [OF noidx])
  obtain key where st: "snd (storeImage rt env img fn) = Inr key"
    using storeImage_returns by blast
  have res: "snd (handleAnalyze rt env request) =
     Inr (json (AnalysisBody
            \<lparr>image_key = key, best_match = keywordFallback [],
             defect = \<lparr>d_code = code (KB ! 0), d_name = name (KB ! 0),
                       d_severity = severity (KB ! 0), d_root_causes = root_causes (KB ! 0),
                       d_corrective_actions = corrective_actions (KB ! 0)\<rparr>,
             rationale = (case resp of None \<Rightarrow> [] | Some r \<Rightarrow> r)\<rparr>) 200)"
    by (rule handleAnalyze_returns [OF b d i f st _ _ _ llm, where vm = None])
       (simp_all add: vm keywordFallback_empty findSop_KB)
  have zero: "\<forall>e\<in>set KB. ruleScore e (toLowerCase []) = 0"
    by (simp add: ruleScore_KB)
  from res zero show ?thesis
    by (intro conjI exI [of _ "\<lparr>image_key = key, best_match = keywordFallback [],
             defect = \<lparr>d_code = code (KB ! 0), d_name = name (KB ! 0),
                       d_severity = severity (KB ! 0), d_root_causes = root_causes (KB ! 0),
                       d_corrective_actions = corrective_actions (KB ! 0)\<rparr>,
             rationale = (case resp of None \<Rightarrow> [] | Some r \<Rightarrow> r)\<rparr>"])
       (simp_all add: keywordFallback_empty)
qed

text \<open>
  The claim as stated fails in two ways: with a rationale call that raises, for a
  missing and for an empty description, and with an image or a filename that is an object
  with a \<^verbatim>\<open>toString\<close> key. The requests are answered 500.
\<close>

theorem C10_counterexample:
  "VECTORIZE_INDEX envRationaleFails = None
   \<and> snd (handleAnalyze exampleRuntime envRationaleFails (analyzeRequest None None))
       = Inl (Thrown (js ''model overloaded''))
   \<and> snd (fetch exampleRuntime envRationaleFails (analyzeRequest (Some []) None))
       = Inr (json (Failure (js ''model overloaded'')) 500)
   \<and> VECTORIZE_INDEX envNoIndex = None
   \<and> fetch exampleRuntime envNoIndex
        (rawAnalyzeRequest None (Some (JObj [(js ''toString'', JNum 1)])) None)
       = ([], Inr (json (Failure (js ''toString is not a function'')) 500))
   \<and> fetch exampleRuntime envNoIndex
        (rawAnalyzeRequest None None (Some (JObj [(js ''toString'', JNum 1)])))
       = ([], Inr (json (Failure (js ''toString is not a function'')) 500))"
proof -
  note r0 = rationale_fails_example [of exampleRuntime None]
  note r1 = rationale_fails_example [of exampleRuntime "Some []"]
  from fetch_analyze_raises [OF analyzeRequest_route r1] r0 show ?thesis
    by (simp add: fetch_object_field envRationaleFails_def envNoIndex_def)
qed

text \<open>An instance of the theorem with working bindings.\<close>

theorem C10_witness:
  "VECTORIZE_INDEX envNoIndex = None
   \<and> ruleScore (KB ! 3) (toLowerCase []) = 0
   \<and> (\<exists>a. snd (handleAnalyze exampleRuntime envNoIndex (analyzeRequest None None))
              = Inr (json (AnalysisBody a) 200)
          \<and> mc_code (best_match a) = js ''CD001-OP''
          \<and> mc_score (best_match a) = 0)"
proof -
  let ?b = "\<lparr>description = map_option JStr None, image_base64 = map_option JStr None,
           filename = None, message = None, contentType = None, data = None\<rparr>"
  have h: "VECTORIZE_INDEX envNoIndex = None" by (simp add: envNoIndex_def)
  have dd: "description ?b = None \<or> description ?b = Some JNull \<or> description ?b = Some (JStr [])"
    by simp
  have i: "stringOf (Number_toString exampleRuntime) (nullishOr (image_base64 ?b) []) = Inr []"
    by simp
  have f: "sanitizeFileName (Number_toString exampleRuntime) (Some (nullishOr (filename ?b) []))
      = Inr []"
    by simp
  have llm: "run_llm (AI envNoIndex) [] (keywordFallback [])
       = Inr (Some (js ''Check viscosity and film thickness first.''))"
    by (simp add: envNoIndex_def exampleAi_def)
  have m3: "KB ! 3 \<in> set KB" by (simp add: KB_length)
  from C10_amended_empty_description [OF h analyzeRequest_body dd i f llm] h m3 show ?thesis
    by auto
qed

end
